theory Spec2Isabelle
  imports Complex_Main "HOL-Library.Word"
begin

section \<open>The live voice session hook and its visualizer\<close>

text \<open>
  A shallow embedding of \<^verbatim>\<open>src/hooks/use-live-api.ts\<close> (the hook
  \<^verbatim>\<open>useLiveSession\<close>) and \<^verbatim>\<open>src/components/Visualizer.tsx\<close>.

  The hook keeps two pieces of React state (\<^verbatim>\<open>status\<close>, \<^verbatim>\<open>volume\<close>) and twelve
  refs. They are the fields of the record \<open>hook\<close>. Everything the hook does to the browser
  (audio contexts, the microphone stream, audio nodes, animation frames) is an update of
  the record \<open>world\<close>. Each callback of the source is a function from the hook state and
  the world to the new hook state and the new world; what the browser or the remote
  service decides (whether the microphone is granted, the output clock, the analyser's
  spectrum) is an argument of the callback.

  JavaScript numbers are modelled as \<open>real\<close>: the claims proved here use them for clock
  times, durations, averages and style factors only.
\<close>

subsection \<open>Data\<close>

text \<open>\<^verbatim>\<open>src/types.ts\<close>: the type \<^verbatim>\<open>LiveSessionStatus\<close>.\<close>

datatype LiveSessionStatus = Disconnected | Connecting | Connected | Error

text \<open>The exceptions the modelled calls can raise.\<close>

datatype exn = InvalidStateError | TypeError | RangeError

text \<open>
  Browser objects are named by handles (\<open>nat\<close>). A ref holding \<^verbatim>\<open>null\<close> is \<open>None\<close>.
  \<^verbatim>\<open>sourcesRef\<close> is a JavaScript \<^verbatim>\<open>Set\<close>, which iterates in insertion order: a list
  without duplicates.
\<close>

type_synonym handle = nat

record hook =
  status :: LiveSessionStatus
  volume :: real
  inputAudioContextRef :: "handle option"
  outputAudioContextRef :: "handle option"
  mediaStreamRef :: "handle option"
  processorRef :: "handle option"
  inputSourceRef :: "handle option"
  outputGainRef :: "handle option"
  analyzerRef :: "handle option"
  sessionRef :: "handle option"
  nextStartTimeRef :: real
  sourcesRef :: "handle list"
  animationFrameRef :: "handle option"
  connectedRef :: bool

text \<open>The state of the hook at its first render (lines 43 to 58).\<close>

definition initialHook :: hook where
  "initialHook =
     \<lparr>status = Disconnected, volume = 0,
      inputAudioContextRef = None, outputAudioContextRef = None, mediaStreamRef = None,
      processorRef = None, inputSourceRef = None, outputGainRef = None,
      analyzerRef = None, sessionRef = None, nextStartTimeRef = 0, sourcesRef = [],
      animationFrameRef = None, connectedRef = False\<rparr>"

text \<open>
  The browser and the remote service, as far as the hook touches them:
  \<^item> \<open>fresh\<close>: the supply of new handles;
  \<^item> \<open>openContexts\<close>: audio contexts created and not closed;
  \<^item> \<open>liveStreams\<close>: microphone streams whose tracks have not been stopped;
  \<^item> \<open>wiredNodes\<close>: audio nodes connected into a processing graph;
  \<^item> \<open>sourceState\<close>: for every buffer source, whether \<^verbatim>\<open>start\<close> was never called
    on it, it is scheduled or playing, or it has ended or been stopped;
  \<^item> \<open>timeline\<close>: every \<^verbatim>\<open>start\<close> call in order, as (source, start time, duration);
  \<^item> \<open>pendingFrames\<close>: animation frames requested and neither run nor cancelled;
  \<^item> \<open>micRequests\<close>, \<open>channelsOpened\<close>: how often \<^verbatim>\<open>getUserMedia\<close> and
    \<^verbatim>\<open>ai.live.connect\<close> were called.
\<close>

datatype playback = Unstarted | Playing | Stopped

record world =
  fresh :: handle
  openContexts :: "handle set"
  liveStreams :: "handle set"
  wiredNodes :: "handle set"
  sourceState :: "handle \<Rightarrow> playback"
  timeline :: "(handle \<times> real \<times> real) list"
  pendingFrames :: "handle set"
  micRequests :: nat
  channelsOpened :: nat

definition initialWorld :: world where
  "initialWorld =
     \<lparr>fresh = 0, openContexts = {}, liveStreams = {}, wiredNodes = {},
      sourceState = (\<lambda>h. Unstarted), timeline = [], pendingFrames = {},
      micRequests = 0, channelsOpened = 0\<rparr>"

subsection \<open>Browser calls\<close>

text \<open>A new handle. Handles start at 1, so a handle is never a falsy 0.\<close>

definition newHandle :: "world \<Rightarrow> handle \<times> world" where
  "newHandle w = (fresh w + 1, w\<lparr>fresh := fresh w + 1\<rparr>)"

text \<open>\<^verbatim>\<open>new AudioContext(...)\<close>.\<close>

definition newAudioContext :: "world \<Rightarrow> handle \<times> world" where
  "newAudioContext w =
     (case newHandle w of (c, w1) \<Rightarrow> (c, w1\<lparr>openContexts := insert c (openContexts w1)\<rparr>))"

text \<open>\<^verbatim>\<open>AudioContext.close()\<close>.\<close>

definition closeContext :: "handle \<Rightarrow> world \<Rightarrow> world" where
  "closeContext c w = w\<lparr>openContexts := openContexts w - {c}\<rparr>"

text \<open>\<^verbatim>\<open>stream.getTracks().forEach(track => track.stop())\<close>.\<close>

definition stopTracks :: "handle \<Rightarrow> world \<Rightarrow> world" where
  "stopTracks m w = w\<lparr>liveStreams := liveStreams w - {m}\<rparr>"

text \<open>\<^verbatim>\<open>node.disconnect()\<close> and \<^verbatim>\<open>node.connect(destination)\<close>.\<close>

definition disconnectNode :: "handle \<Rightarrow> world \<Rightarrow> world" where
  "disconnectNode n w = w\<lparr>wiredNodes := wiredNodes w - {n}\<rparr>"

definition connectNode :: "handle \<Rightarrow> world \<Rightarrow> world" where
  "connectNode n w = w\<lparr>wiredNodes := insert n (wiredNodes w)\<rparr>"

text \<open>
  \<^verbatim>\<open>requestAnimationFrame\<close> returns a new non-zero identifier;
  \<^verbatim>\<open>cancelAnimationFrame\<close> removes the pending callback.
\<close>

definition requestAnimationFrame :: "world \<Rightarrow> handle \<times> world" where
  "requestAnimationFrame w =
     (case newHandle w of (f, w1) \<Rightarrow> (f, w1\<lparr>pendingFrames := insert f (pendingFrames w1)\<rparr>))"

definition cancelAnimationFrame :: "handle \<Rightarrow> world \<Rightarrow> world" where
  "cancelAnimationFrame f w = w\<lparr>pendingFrames := pendingFrames w - {f}\<rparr>"

text \<open>
  \<^verbatim>\<open>source.start(when)\<close> on a buffer source of the given duration, and
  \<^verbatim>\<open>source.stop()\<close>. The Web Audio API raises \<^verbatim>\<open>InvalidStateError\<close> when \<^verbatim>\<open>stop\<close>
  is called on a source that was never started; stopping a source that has ended has no
  effect.
\<close>

definition startSource :: "handle \<Rightarrow> real \<Rightarrow> real \<Rightarrow> world \<Rightarrow> world" where
  "startSource h t d w =
     w\<lparr>sourceState := (sourceState w)(h := Playing),
       timeline := timeline w @ [(h, t, d)]\<rparr>"

definition stopSource :: "handle \<Rightarrow> world \<Rightarrow> exn + world" where
  "stopSource h w =
     (if sourceState w h = Unstarted then Inl InvalidStateError
      else Inr (w\<lparr>sourceState := (sourceState w)(h := Stopped)\<rparr>))"

subsection \<open>Teardown\<close>

text \<open>
  The loop of lines 91 to 93 and 199 to 201:
  \<^verbatim>\<open>sourcesRef.current.forEach(source => { try { source.stop(); } catch (e) {} })\<close>.
  The \<^verbatim>\<open>catch\<close> swallows the exception and the loop goes on.
\<close>

definition tryStop :: "handle \<Rightarrow> world \<Rightarrow> world" where
  "tryStop h w = (case stopSource h w of Inl e \<Rightarrow> w | Inr w1 \<Rightarrow> w1)"

fun stopAll :: "handle list \<Rightarrow> world \<Rightarrow> world" where
  "stopAll [] w = w"
| "stopAll (h # hs) w = stopAll hs (tryStop h w)"

text \<open>
  \<^verbatim>\<open>disconnect\<close>, lines 60 to 103. Each \<^verbatim>\<open>if (ref.current)\<close> is a case on the option;
  \<^verbatim>\<open>animationFrameRef.current\<close> is a number, so the test is also false for 0.
\<close>

definition disconnect :: "hook \<Rightarrow> world \<Rightarrow> hook \<times> world" where
  "disconnect s w =
    (let s0 = s\<lparr>connectedRef := False\<rparr>;
         (s1, w1) = (case processorRef s0 of
                       Some p \<Rightarrow> (s0\<lparr>processorRef := None\<rparr>, disconnectNode p w)
                     | None \<Rightarrow> (s0, w));
         (s2, w2) = (case inputSourceRef s1 of
                       Some i \<Rightarrow> (s1\<lparr>inputSourceRef := None\<rparr>, disconnectNode i w1)
                     | None \<Rightarrow> (s1, w1));
         (s3, w3) = (case mediaStreamRef s2 of
                       Some m \<Rightarrow> (s2\<lparr>mediaStreamRef := None\<rparr>, stopTracks m w2)
                     | None \<Rightarrow> (s2, w2));
         (s4, w4) = (case inputAudioContextRef s3 of
                       Some c \<Rightarrow> (s3\<lparr>inputAudioContextRef := None\<rparr>, closeContext c w3)
                     | None \<Rightarrow> (s3, w3));
         (s5, w5) = (case outputAudioContextRef s4 of
                       Some c \<Rightarrow> (s4\<lparr>outputAudioContextRef := None\<rparr>, closeContext c w4)
                     | None \<Rightarrow> (s4, w4));
         w6 = stopAll (sourcesRef s5) w5;
         s6 = s5\<lparr>sourcesRef := []\<rparr>;
         (s7, w7) = (case animationFrameRef s6 of
                       Some f \<Rightarrow> (if f \<noteq> 0
                                  then (s6\<lparr>animationFrameRef := None\<rparr>, cancelAnimationFrame f w6)
                                  else (s6, w6))
                     | None \<Rightarrow> (s6, w6))
     in (s7\<lparr>status := Disconnected, volume := 0\<rparr>, w7))"

subsection \<open>The audio codec\<close>

text \<open>
  \<^verbatim>\<open>createBlob\<close>, \<^verbatim>\<open>decode\<close> and \<^verbatim>\<open>decodeAudioData\<close> are imported from
  \<^verbatim>\<open>../utils/audio-utils\<close> (line 3), a file that is not among the sources. The
  transport coding (\<^verbatim>\<open>decode\<close>, from the transport string to bytes) is an argument of
  \<open>onmessage\<close>; the PCM codec is modelled from the specification.
\<close>

type_synonym byte = "8 word"

record audioBuffer =
  numberOfChannels :: nat
  sampleRate :: nat
  frames :: nat
  channelData :: "real list list"

text \<open>\<^verbatim>\<open>audioBuffer.duration\<close>: the number of sample frames over the sample rate.\<close>

definition duration :: "audioBuffer \<Rightarrow> real" where
  "duration b = real (frames b) / real (sampleRate b)"

text \<open>
  Modelled from the spec: the byte order of the absent codec. Sections 4.1 and 4.2: a
  sample is a 16-bit little-endian integer, two bytes with the least significant first.
\<close>

definition le16 :: "16 word \<Rightarrow> byte list" where
  "le16 v = [ucast v, ucast (drop_bit 8 v)]"

fun int16s :: "byte list \<Rightarrow> 16 word list" where
  "int16s (lo # hi # rest) = or (push_bit 8 (ucast hi)) (ucast lo) # int16s rest"
| "int16s rest = []"

text \<open>
  Modelled from the spec: \<^verbatim>\<open>decodeAudioData\<close> of the absent \<^verbatim>\<open>utils/audio-utils\<close>.
  Section 4.2: the bytes are read as 16-bit signed little-endian samples, each is
  normalised to [-1, 1] (the 16-bit range over 32768), sample \<open>i\<close> of channel \<open>c\<close> is
  read from flat index \<open>i * channelCount + c\<close>, and the call fails when the byte length
  is not a whole multiple of the byte width of one sample of every channel (two bytes
  times the channel count).
\<close>

definition decodeAudioData :: "byte list \<Rightarrow> nat \<Rightarrow> nat \<Rightarrow> exn + audioBuffer" where
  "decodeAudioData data rate numChannels =
     (if length data mod (2 * numChannels) \<noteq> 0 then Inl RangeError
      else let dataInt16 = int16s data;
               frameCount = length dataInt16 div numChannels
           in Inr \<lparr>numberOfChannels = numChannels, sampleRate = rate, frames = frameCount,
                   channelData =
                     map (\<lambda>c. map (\<lambda>i. real_of_int (sint (dataInt16 ! (i * numChannels + c))) / 32768)
                                  [0..<frameCount])
                         [0..<numChannels]\<rparr>)"

text \<open>
  Modelled from the spec: the byte sequence of \<^verbatim>\<open>createBlob\<close> of the absent
  \<^verbatim>\<open>utils/audio-utils\<close>, before its transport coding. Section 4.1: each sample in
  [-1, 1] becomes a 16-bit signed little-endian integer, clamped to the representable
  range. The scale is the inverse of the decoder's normalisation. The specification does
  not say how a scaled sample is rounded to an integer, so the rounding \<open>rnd\<close> is an
  argument.
\<close>

definition toInt16 :: "(real \<Rightarrow> int) \<Rightarrow> real \<Rightarrow> int" where
  "toInt16 rnd x = max (- 32768) (min 32767 (rnd (x * 32768)))"

definition createBlob :: "(real \<Rightarrow> int) \<Rightarrow> real list \<Rightarrow> byte list" where
  "createBlob rnd samples = concat (map (\<lambda>x. le16 (word_of_int (toInt16 rnd x))) samples)"

subsection \<open>The volume meter\<close>

text \<open>
  \<^verbatim>\<open>updateVolume\<close>, lines 221 to 231. The analyser has \<^verbatim>\<open>fftSize = 256\<close> (line 118),
  so \<^verbatim>\<open>frequencyBinCount\<close> is 128 and \<^verbatim>\<open>dataArray\<close> has 128 entries, which
  \<^verbatim>\<open>getByteFrequencyData\<close> fills from the current spectrum (an argument: bin index to
  magnitude).
\<close>

definition frequencyBinCount :: nat where
  "frequencyBinCount = 256 div 2"

definition getByteFrequencyData :: "(nat \<Rightarrow> byte) \<Rightarrow> byte list" where
  "getByteFrequencyData spectrum = map spectrum [0..<frequencyBinCount]"

definition average :: "byte list \<Rightarrow> real" where
  "average dataArray = real (sum_list (map unat dataArray)) / real (length dataArray)"

definition updateVolume :: "(nat \<Rightarrow> byte) \<Rightarrow> hook \<Rightarrow> world \<Rightarrow> hook \<times> world" where
  "updateVolume spectrum s w =
     (let s1 = (if analyzerRef s \<noteq> None \<and> connectedRef s
                then s\<lparr>volume := average (getByteFrequencyData spectrum)\<rparr> else s)
      in if connectedRef s1
         then (case requestAnimationFrame w of
                 (f, w1) \<Rightarrow> (s1\<lparr>animationFrameRef := Some f\<rparr>, w1))
         else (s1, w))"

subsection \<open>Connecting\<close>

text \<open>
  What the environment answers during the \<^verbatim>\<open>try\<close> block of \<^verbatim>\<open>connect\<close>: the
  first \<^verbatim>\<open>new AudioContext\<close> throws, \<^verbatim>\<open>getUserMedia\<close> rejects, the client
  (\<^verbatim>\<open>new GoogleGenAI\<close>, \<^verbatim>\<open>ai.live.connect\<close>) throws, or every step succeeds.
\<close>

datatype setupResult = ContextFailed | MicDenied | ClientFailed | SetupOk

text \<open>The \<^verbatim>\<open>catch\<close> block, lines 236 to 240: \<^verbatim>\<open>setStatus('error'); disconnect();\<close>.\<close>

definition connectCatch :: "hook \<Rightarrow> world \<Rightarrow> hook \<times> world" where
  "connectCatch s w = disconnect (s\<lparr>status := Error\<rparr>) w"

text \<open>
  \<^verbatim>\<open>connect\<close> is an async function with one suspension point,
  \<^verbatim>\<open>await getUserMedia\<close> (line 126). \<open>connect_start\<close> is the part before it (lines 105
  to 126) and \<open>connect_resume\<close> the part after it (lines 127 to 240).

  \<^verbatim>\<open>connect\<close> is built by \<^verbatim>\<open>useCallback(..., [status, disconnect])\<close>: the
  \<^verbatim>\<open>status\<close> read at line 106 is the status of the render that built the callback,
  the argument \<open>rendered\<close>. React builds the callback again with every render in which
  \<^verbatim>\<open>status\<close> has changed, so for the callback of the current render \<open>rendered\<close> is
  \<open>status s\<close>. A callback that is called again before the next render, or that was kept
  from an earlier render, still reads the earlier status.
\<close>

datatype connectPhase = Finished | AwaitingMic

definition connect_start ::
  "LiveSessionStatus \<Rightarrow> setupResult \<Rightarrow> hook \<Rightarrow> world \<Rightarrow> connectPhase \<times> hook \<times> world" where
  "connect_start rendered env s w =
     (if rendered = Connected \<or> rendered = Connecting then (Finished, s, w)
      else let s1 = s\<lparr>status := Connecting\<rparr>
           in if env = ContextFailed
              then (case connectCatch s1 w of (s2, w2) \<Rightarrow> (Finished, s2, w2))
              else let (inputCtx, w1) = newAudioContext w;
                       (outputCtx, w2) = newAudioContext w1;
                       s2 = s1\<lparr>inputAudioContextRef := Some inputCtx,
                               outputAudioContextRef := Some outputCtx\<rparr>;
                       (analyzer, w3) = newHandle w2;
                       s3 = s2\<lparr>analyzerRef := Some analyzer\<rparr>;
                       (outputGain, w4) = newHandle w3;
                       s4 = s3\<lparr>outputGainRef := Some outputGain\<rparr>;
                       w5 = connectNode analyzer (connectNode outputGain w4);
                       w6 = w5\<lparr>micRequests := micRequests w5 + 1\<rparr>
                   in (AwaitingMic, s4, w6))"

definition connect_resume ::
  "setupResult \<Rightarrow> (nat \<Rightarrow> byte) \<Rightarrow> hook \<Rightarrow> world \<Rightarrow> hook \<times> world" where
  "connect_resume env spectrum s w =
     (if env = MicDenied then connectCatch s w
      else let (stream, w1) = newHandle w;
               w2 = w1\<lparr>liveStreams := insert stream (liveStreams w1)\<rparr>;
               s1 = s\<lparr>mediaStreamRef := Some stream\<rparr>
           in if env = ClientFailed then connectCatch s1 w2
              else let (sessionPromise, w3) = newHandle w2;
                       w4 = w3\<lparr>channelsOpened := channelsOpened w3 + 1\<rparr>;
                       s2 = s1\<lparr>sessionRef := Some sessionPromise\<rparr>;
                       s3 = s2\<lparr>connectedRef := True\<rparr>
                   in updateVolume spectrum s3 w4)"

text \<open>A call of \<^verbatim>\<open>connect\<close> that no other callback interleaves with.\<close>

definition connect ::
  "LiveSessionStatus \<Rightarrow> setupResult \<Rightarrow> (nat \<Rightarrow> byte) \<Rightarrow> hook \<Rightarrow> world \<Rightarrow> hook \<times> world" where
  "connect rendered env spectrum s w =
     (case connect_start rendered env s w of
        (Finished, s1, w1) \<Rightarrow> (s1, w1)
      | (AwaitingMic, s1, w1) \<Rightarrow> connect_resume env spectrum s1 w1)"

subsection \<open>The callbacks of the remote channel\<close>

text \<open>
  \<^verbatim>\<open>onopen\<close>, lines 143 to 167. The frames that \<^verbatim>\<open>onaudioprocess\<close> forwards to the
  channel are not part of the model.
\<close>

definition onopen :: "hook \<Rightarrow> world \<Rightarrow> hook \<times> world" where
  "onopen s w =
     (let s1 = s\<lparr>status := Connected, connectedRef := True\<rparr>;
          (source, w1) = newHandle w;
          s2 = s1\<lparr>inputSourceRef := Some source\<rparr>;
          (processor, w2) = newHandle w1;
          s3 = s2\<lparr>processorRef := Some processor\<rparr>
      in (s3, connectNode processor (connectNode source w2)))"

text \<open>
  A \<^verbatim>\<open>LiveServerMessage\<close>, as far as \<^verbatim>\<open>onmessage\<close> reads it:
  \<^verbatim>\<open>serverContent?.modelTurn?.parts?.[0]?.inlineData?.data\<close> and
  \<^verbatim>\<open>serverContent?.interrupted\<close> (absent is false).
\<close>

record message =
  base64Audio :: "string option"
  interrupted :: bool

text \<open>\<^verbatim>\<open>Set.add\<close> on the insertion-ordered set.\<close>

definition setAdd :: "handle \<Rightarrow> handle list \<Rightarrow> handle list" where
  "setAdd h hs = (if h \<in> set hs then hs else hs @ [h])"

text \<open>
  The interruption block, lines 198 to 204: stop every source of \<^verbatim>\<open>sourcesRef\<close>
  (swallowing what \<^verbatim>\<open>stop\<close> raises), clear the set, reset the cursor.
\<close>

definition interrupt :: "hook \<Rightarrow> world \<Rightarrow> hook \<times> world" where
  "interrupt s w = (s\<lparr>sourcesRef := [], nextStartTimeRef := 0\<rparr>, stopAll (sourcesRef s) w)"

definition handleInterruption :: "message \<Rightarrow> hook \<Rightarrow> world \<Rightarrow> hook \<times> world" where
  "handleInterruption m s w = (if interrupted m then interrupt s w else (s, w))"

text \<open>
  \<^verbatim>\<open>onmessage\<close>, lines 168 to 205, run without another callback in between. \<open>now\<close>
  is \<^verbatim>\<open>ctx.currentTime\<close> when the handler starts. The first component of the result is
  the exception the async handler rejects with, if any; the state it has written by then
  stays written.
  \<^item> \<^verbatim>\<open>if (base64Audio)\<close> is false for an absent and for an empty string;
  \<^item> \<^verbatim>\<open>if (!ctx) return;\<close> leaves the whole handler, the interruption block included;
  \<^item> the cursor is raised (line 175) before the payload is decoded (line 177);
  \<^item> \<^verbatim>\<open>source.connect(outputGainRef.current!)\<close> raises \<^verbatim>\<open>TypeError\<close> on \<^verbatim>\<open>null\<close>.
\<close>

definition onmessage ::
  "(string \<Rightarrow> byte list) \<Rightarrow> message \<Rightarrow> real \<Rightarrow> hook \<Rightarrow> world \<Rightarrow> exn option \<times> hook \<times> world" where
  "onmessage decode m now s w =
     (case base64Audio m of
        None \<Rightarrow> (None, handleInterruption m s w)
      | Some b \<Rightarrow>
          if b = [] then (None, handleInterruption m s w)
          else (case outputAudioContextRef s of
                  None \<Rightarrow> (None, s, w)
                | Some ctx \<Rightarrow>
                    let s1 = s\<lparr>nextStartTimeRef := max (nextStartTimeRef s) now\<rparr>
                    in (case decodeAudioData (decode b) 24000 1 of
                          Inl e \<Rightarrow> (Some e, s1, w)
                        | Inr audioBuffer \<Rightarrow>
                            (case newHandle w of
                               (source, w1) \<Rightarrow>
                                 (case outputGainRef s1 of
                                    None \<Rightarrow> (Some TypeError, s1, w1)
                                  | Some g \<Rightarrow>
                                      let w2 = startSource source (nextStartTimeRef s1)
                                                 (duration audioBuffer) w1;
                                          s2 = s1\<lparr>nextStartTimeRef :=
                                                    nextStartTimeRef s1 + duration audioBuffer\<rparr>;
                                          s3 = s2\<lparr>sourcesRef := setAdd source (sourcesRef s2)\<rparr>
                                      in (None, handleInterruption m s3 w2))))))"

text \<open>
  The \<^verbatim>\<open>ended\<close> listener of a source (lines 188 to 190), run when the source has
  played to its end.
\<close>

definition onended :: "handle \<Rightarrow> hook \<Rightarrow> world \<Rightarrow> hook \<times> world" where
  "onended h s w =
     (s\<lparr>sourcesRef := removeAll h (sourcesRef s)\<rparr>,
      w\<lparr>sourceState := (sourceState w)(h := Stopped)\<rparr>)"

text \<open>\<^verbatim>\<open>onclose\<close> (lines 206 to 209) and \<^verbatim>\<open>onerror\<close> (lines 210 to 214).\<close>

definition onclose :: "hook \<Rightarrow> world \<Rightarrow> hook \<times> world" where
  "onclose s w = disconnect s w"

definition onerror :: "hook \<Rightarrow> world \<Rightarrow> hook \<times> world" where
  "onerror s w = (case disconnect s w of (s1, w1) \<Rightarrow> (s1\<lparr>status := Error\<rparr>, w1))"

text \<open>A run of messages at a fixed output clock; a rejected handler is dropped.\<close>

fun onmessages ::
  "(string \<Rightarrow> byte list) \<Rightarrow> real \<Rightarrow> message list \<Rightarrow> hook \<Rightarrow> world \<Rightarrow> hook \<times> world" where
  "onmessages decode now [] s w = (s, w)"
| "onmessages decode now (m # ms) s w =
     (case onmessage decode m now s w of (e, s1, w1) \<Rightarrow> onmessages decode now ms s1 w1)"

subsection \<open>The visualizer\<close>

text \<open>
  \<^verbatim>\<open>Visualizer\<close>, \<^verbatim>\<open>src/components/Visualizer.tsx\<close> lines 8 to 54: the inline styles of
  the three circles, and whether the inner core shows its active colours and icon.
\<close>

record visual =
  outerScale :: real
  outerOpacity :: real
  middleScale :: real
  middleOpacity :: real
  innerScale :: real
  innerActive :: bool

definition Visualizer :: "real \<Rightarrow> bool \<Rightarrow> visual" where
  "Visualizer vol isActive =
     (let scale = (if isActive then 1 + (vol / 255) * 1.5 else 1);
          opacity = (if isActive then 0.6 + (vol / 255) * 0.4 else 0.3)
      in \<lparr>outerScale = (if isActive then 1 + vol / 500 else 0.8),
          outerOpacity = (if isActive then vol / 600 else 0),
          middleScale = scale * 0.9,
          middleOpacity = opacity,
          innerScale = (if isActive then 1 + vol / 800 else 1),
          innerActive = isActive\<rparr>)"

subsection \<open>A session in progress\<close>

text \<open>
  The hook and the world after \<^verbatim>\<open>connect\<close> has succeeded from the first render and
  the remote channel has opened (lemmas \<open>connect_ok_initial\<close> and \<open>onopen_connected\<close>
  below): the state the concrete instances of the theorems start from.
\<close>

definition connectedHook :: hook where
  "connectedHook =
     \<lparr>status = Connected, volume = 0,
      inputAudioContextRef = Some 1, outputAudioContextRef = Some 2, mediaStreamRef = Some 5,
      processorRef = Some 9, inputSourceRef = Some 8, outputGainRef = Some 4,
      analyzerRef = Some 3, sessionRef = Some 6, nextStartTimeRef = 0, sourcesRef = [],
      animationFrameRef = Some 7, connectedRef = True\<rparr>"

definition connectedWorld :: world where
  "connectedWorld =
     \<lparr>fresh = 9, openContexts = {2, 1}, liveStreams = {5}, wiredNodes = {9, 8, 3, 4},
      sourceState = (\<lambda>h. Unstarted), timeline = [], pendingFrames = {7},
      micRequests = 1, channelsOpened = 1\<rparr>"

text \<open>What the stop loop does to the source states: started sources of the list are stopped.\<close>

definition stopped :: "handle list \<Rightarrow> (handle \<Rightarrow> playback) \<Rightarrow> handle \<Rightarrow> playback" where
  "stopped hs f = (\<lambda>h. if h \<in> set hs \<and> f h \<noteq> Unstarted then Stopped else f h)"

subsection \<open>Auxiliary definitions for the scheduler\<close>

text \<open>
  The buffer a message is scheduled with: its payload, when it has one that
  \<^verbatim>\<open>if (base64Audio)\<close> accepts and the decoder does not reject.
\<close>

definition bufferOf :: "(string \<Rightarrow> byte list) \<Rightarrow> message \<Rightarrow> audioBuffer option" where
  "bufferOf decode m =
     (case base64Audio m of
        None \<Rightarrow> None
      | Some b \<Rightarrow> if b = [] then None
                  else (case decodeAudioData (decode b) 24000 1 of
                          Inl e \<Rightarrow> None
                        | Inr audioBuffer \<Rightarrow> Some audioBuffer))"

text \<open>The durations of the buffers of a run of messages.\<close>

definition durations :: "(string \<Rightarrow> byte list) \<Rightarrow> message list \<Rightarrow> real list" where
  "durations decode ms = map (\<lambda>m. duration (the (bufferOf decode m))) ms"

text \<open>Back-to-back playback windows (start, duration) from a start time.\<close>

fun windows :: "real \<Rightarrow> real list \<Rightarrow> (real \<times> real) list" where
  "windows t [] = []"
| "windows t (d # ds) = (t, d) # windows (t + d) ds"

text \<open>
  For the concrete instances: a transport coding with one byte per character, a message
  that carries audio only, a message that only signals an interruption, and a connected
  session with three sources in the in-flight set: one playing, one that has ended and
  one that was never started.
\<close>

definition bytesOfString :: "string \<Rightarrow> byte list" where
  "bytesOfString b = map of_char b"

definition audioMessage :: "string \<Rightarrow> message" where
  "audioMessage b = \<lparr>base64Audio = Some b, interrupted = False\<rparr>"

definition interruptionMessage :: message where
  "interruptionMessage = \<lparr>base64Audio = None, interrupted = True\<rparr>"

definition playingHook :: hook where
  "playingHook = connectedHook\<lparr>sourcesRef := [10, 11, 12], nextStartTimeRef := 3\<rparr>"

definition playingWorld :: world where
  "playingWorld =
     connectedWorld\<lparr>fresh := 12,
       sourceState := (\<lambda>h. if h = 10 then Playing else if h = 11 then Stopped else Unstarted),
       timeline := [(10, 0, 1), (11, 1, 2)]\<rparr>"

text \<open>A silent spectrum: every bin of the analyser reads 0.\<close>

definition silence :: "nat \<Rightarrow> byte" where
  "silence i = 0"

section \<open>Properties\<close>

subsection \<open>Teardown\<close>

lemma stopped_Nil: "stopped [] f = f"
  by (simp add: stopped_def)

lemma stopped_not_Playing: "h \<in> set hs \<Longrightarrow> stopped hs f h \<noteq> Playing"
  by (simp add: stopped_def)

lemma stopAll_eq: "stopAll hs w = w\<lparr>sourceState := stopped hs (sourceState w)\<rparr>"
proof (induction hs arbitrary: w)
  case Nil
  show ?case by (simp add: stopped_def)
next
  case (Cons a hs)
  show ?case
    by (simp add: Cons.IH tryStop_def stopSource_def stopped_def fun_eq_iff)
qed

text \<open>\<^verbatim>\<open>disconnect\<close> in closed form: one case per ref that may hold \<^verbatim>\<open>null\<close>.\<close>

lemma disconnect_eq:
  "disconnect s w =
     (s\<lparr>status := Disconnected, volume := 0, connectedRef := False, processorRef := None,
        inputSourceRef := None, mediaStreamRef := None, inputAudioContextRef := None,
        outputAudioContextRef := None, sourcesRef := [],
        animationFrameRef := (if animationFrameRef s = Some 0 then Some 0 else None)\<rparr>,
      w\<lparr>wiredNodes := wiredNodes w - set_option (processorRef s) - set_option (inputSourceRef s),
        liveStreams := liveStreams w - set_option (mediaStreamRef s),
        openContexts := openContexts w - set_option (inputAudioContextRef s)
                          - set_option (outputAudioContextRef s),
        sourceState := stopped (sourcesRef s) (sourceState w),
        pendingFrames := pendingFrames w - (set_option (animationFrameRef s) - {0})\<rparr>)"
  apply (cases "processorRef s"; cases "inputSourceRef s"; cases "mediaStreamRef s";
         cases "inputAudioContextRef s"; cases "outputAudioContextRef s";
         cases "animationFrameRef s")
  apply (simp_all add: disconnect_def stopAll_eq disconnectNode_def stopTracks_def
      closeContext_def cancelAnimationFrame_def)
  done

text \<open>
  Claim C7. \<^verbatim>\<open>disconnect\<close> is a total function of the state (the only call in it that
  can raise, \<^verbatim>\<open>source.stop()\<close>, is inside a \<^verbatim>\<open>try\<close> whose \<^verbatim>\<open>catch\<close> swallows the
  exception). From every state it ends with status \<open>Disconnected\<close>, volume 0, an empty
  in-flight set and the device refs cleared; the contexts, the microphone stream, the
  capture nodes, the in-flight sources and the pending animation frame the hook held are
  released in the world; and a second \<^verbatim>\<open>disconnect\<close> changes neither the hook nor the
  world, as \<^verbatim>\<open>disconnect\<close> on the hook of the first render changes nothing.
  \<^verbatim>\<open>onclose\<close> is the same teardown. (An animation frame identifier 0 would be falsy at line 96; the browser never
  hands out 0.)
\<close>

theorem disconnect_idempotent:
  assumes "disconnect s w = (s', w')"
  shows "disconnect s' w' = (s', w') \<and> disconnect initialHook w = (initialHook, w)
       \<and> onclose s w = (s', w')
       \<and> status s' = Disconnected \<and> volume s' = 0 \<and> sourcesRef s' = [] \<and> \<not> connectedRef s'
       \<and> processorRef s' = None \<and> inputSourceRef s' = None \<and> mediaStreamRef s' = None
       \<and> inputAudioContextRef s' = None \<and> outputAudioContextRef s' = None
       \<and> (animationFrameRef s \<noteq> Some 0 \<longrightarrow> animationFrameRef s' = None)
       \<and> (\<forall>c \<in> set_option (inputAudioContextRef s) \<union> set_option (outputAudioContextRef s).
             c \<notin> openContexts w')
       \<and> (\<forall>m \<in> set_option (mediaStreamRef s). m \<notin> liveStreams w')
       \<and> (\<forall>n \<in> set_option (processorRef s) \<union> set_option (inputSourceRef s). n \<notin> wiredNodes w')
       \<and> (\<forall>h \<in> set (sourcesRef s). sourceState w' h \<noteq> Playing)
       \<and> (\<forall>f \<in> set_option (animationFrameRef s). f \<noteq> 0 \<longrightarrow> f \<notin> pendingFrames w')"
proof -
  from assms have s': "s' = fst (disconnect s w)" and w': "w' = snd (disconnect s w)"
    by simp_all
  have again: "disconnect s' w' = (s', w')"
    unfolding s' w' by (simp add: disconnect_eq stopped_Nil)
  have closed: "onclose s w = (s', w')"
    using assms by (simp add: onclose_def)
  have init: "disconnect initialHook w = (initialHook, w)"
    by (simp add: disconnect_eq stopped_Nil initialHook_def)
  have fields: "status s' = Disconnected \<and> volume s' = 0 \<and> sourcesRef s' = [] \<and> \<not> connectedRef s'
       \<and> processorRef s' = None \<and> inputSourceRef s' = None \<and> mediaStreamRef s' = None
       \<and> inputAudioContextRef s' = None \<and> outputAudioContextRef s' = None
       \<and> (animationFrameRef s \<noteq> Some 0 \<longrightarrow> animationFrameRef s' = None)"
    unfolding s' by (simp add: disconnect_eq)
  have released:
    "(\<forall>c \<in> set_option (inputAudioContextRef s) \<union> set_option (outputAudioContextRef s).
             c \<notin> openContexts w')
       \<and> (\<forall>m \<in> set_option (mediaStreamRef s). m \<notin> liveStreams w')
       \<and> (\<forall>n \<in> set_option (processorRef s) \<union> set_option (inputSourceRef s). n \<notin> wiredNodes w')
       \<and> (\<forall>h \<in> set (sourcesRef s). sourceState w' h \<noteq> Playing)
       \<and> (\<forall>f \<in> set_option (animationFrameRef s). f \<noteq> 0 \<longrightarrow> f \<notin> pendingFrames w')"
    unfolding w' by (auto simp: disconnect_eq stopped_not_Playing)
  from again init closed fields released show ?thesis by blast
qed

text \<open>
  The theorem at a connected session with two sources in the in-flight set, one playing
  and one never started (its \<^verbatim>\<open>stop\<close> raises and is swallowed).
\<close>

theorem disconnect_idempotent_witness:
  "disconnect (connectedHook\<lparr>sourcesRef := [10, 11], nextStartTimeRef := 1\<rparr>)
              (connectedWorld\<lparr>fresh := 11, sourceState := (\<lambda>h. Unstarted)(10 := Playing)\<rparr>)
     = (initialHook\<lparr>outputGainRef := Some 4, analyzerRef := Some 3, sessionRef := Some 6,
                     nextStartTimeRef := 1\<rparr>,
        connectedWorld\<lparr>fresh := 11, openContexts := {}, liveStreams := {}, wiredNodes := {3, 4},
                         sourceState := (\<lambda>h. Unstarted)(10 := Stopped), pendingFrames := {}\<rparr>)
   \<and> disconnect (initialHook\<lparr>outputGainRef := Some 4, analyzerRef := Some 3, sessionRef := Some 6,
                     nextStartTimeRef := 1\<rparr>)
        (connectedWorld\<lparr>fresh := 11, openContexts := {}, liveStreams := {}, wiredNodes := {3, 4},
                         sourceState := (\<lambda>h. Unstarted)(10 := Stopped), pendingFrames := {}\<rparr>)
     = (initialHook\<lparr>outputGainRef := Some 4, analyzerRef := Some 3, sessionRef := Some 6,
                     nextStartTimeRef := 1\<rparr>,
        connectedWorld\<lparr>fresh := 11, openContexts := {}, liveStreams := {}, wiredNodes := {3, 4},
                         sourceState := (\<lambda>h. Unstarted)(10 := Stopped), pendingFrames := {}\<rparr>)"
proof -
  have run: "disconnect (connectedHook\<lparr>sourcesRef := [10, 11], nextStartTimeRef := 1\<rparr>)
              (connectedWorld\<lparr>fresh := 11, sourceState := (\<lambda>h. Unstarted)(10 := Playing)\<rparr>)
     = (initialHook\<lparr>outputGainRef := Some 4, analyzerRef := Some 3, sessionRef := Some 6,
                     nextStartTimeRef := 1\<rparr>,
        connectedWorld\<lparr>fresh := 11, openContexts := {}, liveStreams := {}, wiredNodes := {3, 4},
                         sourceState := (\<lambda>h. Unstarted)(10 := Stopped), pendingFrames := {}\<rparr>)"
    by (auto simp add: disconnect_def stopSource_def tryStop_def
        disconnectNode_def stopTracks_def closeContext_def cancelAnimationFrame_def
        connectedHook_def connectedWorld_def initialHook_def fun_eq_iff)
  from disconnect_idempotent [OF run] run show ?thesis by simp
qed

subsection \<open>Connecting\<close>

text \<open>The two outcomes of \<^verbatim>\<open>connect\<close> past its guard, in closed form.\<close>

lemma connect_start_ok:
  assumes "rendered \<noteq> Connected" "rendered \<noteq> Connecting" "env \<noteq> ContextFailed"
  shows "connect_start rendered env s w =
     (AwaitingMic,
      s\<lparr>status := Connecting,
        inputAudioContextRef := Some (fresh w + 1), outputAudioContextRef := Some (fresh w + 2),
        analyzerRef := Some (fresh w + 3), outputGainRef := Some (fresh w + 4)\<rparr>,
      w\<lparr>openContexts := insert (fresh w + 2) (insert (fresh w + 1) (openContexts w)),
        fresh := fresh w + 4,
        wiredNodes := insert (fresh w + 3) (insert (fresh w + 4) (wiredNodes w)),
        micRequests := micRequests w + 1\<rparr>)"
  using assms
  by (simp add: connect_start_def newAudioContext_def newHandle_def connectNode_def
      eval_nat_numeral)

lemma connect_ok:
  assumes "rendered \<noteq> Connected" "rendered \<noteq> Connecting"
  shows "connect rendered SetupOk spectrum s w =
     (s\<lparr>status := Connecting,
        inputAudioContextRef := Some (fresh w + 1), outputAudioContextRef := Some (fresh w + 2),
        analyzerRef := Some (fresh w + 3), outputGainRef := Some (fresh w + 4),
        mediaStreamRef := Some (fresh w + 5), sessionRef := Some (fresh w + 6),
        connectedRef := True, volume := average (getByteFrequencyData spectrum),
        animationFrameRef := Some (fresh w + 7)\<rparr>,
      w\<lparr>fresh := fresh w + 7,
        openContexts := insert (fresh w + 2) (insert (fresh w + 1) (openContexts w)),
        wiredNodes := insert (fresh w + 3) (insert (fresh w + 4) (wiredNodes w)),
        micRequests := micRequests w + 1,
        liveStreams := insert (fresh w + 5) (liveStreams w),
        channelsOpened := channelsOpened w + 1,
        pendingFrames := insert (fresh w + 7) (pendingFrames w)\<rparr>)"
  using assms
  by (simp add: connect_def connect_start_def connect_resume_def updateVolume_def
      newAudioContext_def newHandle_def connectNode_def requestAnimationFrame_def
      eval_nat_numeral)

lemma connect_denied:
  assumes "rendered \<noteq> Connected" "rendered \<noteq> Connecting"
  shows "connect rendered MicDenied spectrum s w =
     disconnect (s\<lparr>inputAudioContextRef := Some (fresh w + 1), outputAudioContextRef := Some (fresh w + 2),
                   analyzerRef := Some (fresh w + 3), outputGainRef := Some (fresh w + 4),
                   status := Error\<rparr>)
       (w\<lparr>openContexts := insert (fresh w + 2) (insert (fresh w + 1) (openContexts w)),
        fresh := fresh w + 4,
        wiredNodes := insert (fresh w + 3) (insert (fresh w + 4) (wiredNodes w)),
        micRequests := micRequests w + 1\<rparr>)"
  using assms
  by (simp add: connect_def connect_start_def connect_resume_def connectCatch_def
      newAudioContext_def newHandle_def connectNode_def eval_nat_numeral)

lemma onopen_eq:
  "onopen s w =
     (s\<lparr>status := Connected, connectedRef := True, inputSourceRef := Some (fresh w + 1),
        processorRef := Some (fresh w + 2)\<rparr>,
      w\<lparr>fresh := fresh w + 2,
        wiredNodes := insert (fresh w + 2) (insert (fresh w + 1) (wiredNodes w))\<rparr>)"
  by (simp add: onopen_def newHandle_def connectNode_def eval_nat_numeral)

lemma average_silence: "average (getByteFrequencyData silence) = 0"
  by (simp add: average_def getByteFrequencyData_def silence_def)

lemma connect_ok_initial:
  "connect Disconnected SetupOk silence initialHook initialWorld =
     (connectedHook\<lparr>status := Connecting, processorRef := None, inputSourceRef := None\<rparr>,
      connectedWorld\<lparr>fresh := 7, wiredNodes := {3, 4}\<rparr>)"
  by (simp add: connect_ok average_silence initialHook_def initialWorld_def connectedHook_def
      connectedWorld_def eval_nat_numeral)

lemma onopen_connected:
  "onopen (connectedHook\<lparr>status := Connecting, processorRef := None, inputSourceRef := None\<rparr>)
      (connectedWorld\<lparr>fresh := 7, wiredNodes := {3, 4}\<rparr>) = (connectedHook, connectedWorld)"
  by (simp add: onopen_eq connectedHook_def connectedWorld_def)

lemma onerror_status: "status (fst (onerror s w)) = Error"
  by (simp add: onerror_def split_beta)

text \<open>
  Claim C1, evaluated on the code. \<^verbatim>\<open>connect\<close> from the first render, with the
  microphone denied: the \<^verbatim>\<open>catch\<close> block calls \<^verbatim>\<open>setStatus('error')\<close> and then
  \<^verbatim>\<open>disconnect()\<close>, whose last statements are \<^verbatim>\<open>setStatus('disconnected')\<close> and
  \<^verbatim>\<open>setVolume(0)\<close>. The teardown is complete (both contexts are closed again, no
  stream is held), but the status the session settles in is \<open>Disconnected\<close>, not
  \<open>Error\<close>. The sibling handler \<^verbatim>\<open>onerror\<close> has the two calls in the other order and
  does settle in \<open>Error\<close> (lemma \<open>onerror_status\<close>).
\<close>

theorem connect_mic_denied_ends_disconnected:
  "connect Disconnected MicDenied silence initialHook initialWorld =
     (initialHook\<lparr>analyzerRef := Some 3, outputGainRef := Some 4\<rparr>,
      initialWorld\<lparr>fresh := 4, wiredNodes := {3, 4}, micRequests := 1\<rparr>)
   \<and> status (fst (connect Disconnected MicDenied silence initialHook initialWorld)) = Disconnected"
  by (auto simp add: connect_denied disconnect_eq stopped_Nil initialHook_def initialWorld_def)

text \<open>
  The guard of line 106. A call of \<^verbatim>\<open>connect\<close> whose callback was built by a render
  with status \<open>Connecting\<close> or \<open>Connected\<close> returns at once: neither the hook nor the
  world changes. A first call from a render with another status sets the status to
  \<open>Connecting\<close> and makes one \<^verbatim>\<open>getUserMedia\<close> request; a second call through the
  callback of the next render (status \<open>Connecting\<close>) then changes nothing.
\<close>

lemma connect_guard:
  "(rendered = Connecting \<or> rendered = Connected \<longrightarrow>
      connect_start rendered env s w = (Finished, s, w)
      \<and> connect rendered env spectrum s w = (s, w))
   \<and> (rendered \<noteq> Connecting \<and> rendered \<noteq> Connected \<and> env \<noteq> ContextFailed
        \<and> connect_start rendered env s w = (phase, s1, w1) \<longrightarrow>
      phase = AwaitingMic \<and> status s1 = Connecting
      \<and> micRequests w1 = micRequests w + 1
      \<and> connect_start (status s1) env2 s1 w1 = (Finished, s1, w1)
      \<and> connect (status s1) env2 spectrum s1 w1 = (s1, w1))"
proof -
  have guard: "connect_start r e t v = (Finished, t, v) \<and> connect r e sp t v = (t, v)"
    if "r = Connecting \<or> r = Connected" for r e sp t v
    using that by (auto simp: connect_def connect_start_def)
  have first: "phase = AwaitingMic \<and> status s1 = Connecting \<and> micRequests w1 = micRequests w + 1"
    if "rendered \<noteq> Connecting" "rendered \<noteq> Connected" "env \<noteq> ContextFailed"
       "connect_start rendered env s w = (phase, s1, w1)"
    using that connect_start_ok [of rendered env s w] by auto
  show ?thesis
    using guard first by metis
qed

text \<open>
  Claim C3, evaluated on the code. \<^verbatim>\<open>connect()\<close> called twice in a row from the first
  render, both calls through the same callback (the one built with status
  \<open>Disconnected\<close>; React has not rendered again in between). The first call sets the
  status to \<open>Connecting\<close>, creates contexts 1 and 2 and requests the microphone. The
  second call reads the status of its closure, still \<open>Disconnected\<close>, passes the guard
  although the session is already \<open>Connecting\<close>, and starts a second setup: contexts 5
  and 6 are created, the refs to contexts 1 and 2 are overwritten and a second
  \<^verbatim>\<open>getUserMedia\<close> request is made. A later \<^verbatim>\<open>disconnect\<close> closes contexts 5 and 6
  only and leaves 1 and 2 open. The second call is not ignored.
\<close>

theorem connect_twice_same_callback_two_setups:
  "connect_start Disconnected SetupOk initialHook initialWorld =
     (AwaitingMic,
      initialHook\<lparr>status := Connecting, inputAudioContextRef := Some 1,
                   outputAudioContextRef := Some 2, analyzerRef := Some 3, outputGainRef := Some 4\<rparr>,
      initialWorld\<lparr>openContexts := {2, 1}, fresh := 4, wiredNodes := {3, 4}, micRequests := 1\<rparr>)
   \<and> connect_start Disconnected SetupOk
       (initialHook\<lparr>status := Connecting, inputAudioContextRef := Some 1,
                   outputAudioContextRef := Some 2, analyzerRef := Some 3, outputGainRef := Some 4\<rparr>)
       (initialWorld\<lparr>openContexts := {2, 1}, fresh := 4, wiredNodes := {3, 4}, micRequests := 1\<rparr>)
     = (AwaitingMic,
        initialHook\<lparr>status := Connecting, inputAudioContextRef := Some 5,
                   outputAudioContextRef := Some 6, analyzerRef := Some 7, outputGainRef := Some 8\<rparr>,
        initialWorld\<lparr>openContexts := {6, 5, 2, 1}, fresh := 8, wiredNodes := {7, 8, 3, 4},
                      micRequests := 2\<rparr>)
   \<and> openContexts (snd (disconnect
        (initialHook\<lparr>status := Connecting, inputAudioContextRef := Some 5,
                   outputAudioContextRef := Some 6, analyzerRef := Some 7, outputGainRef := Some 8\<rparr>)
        (initialWorld\<lparr>openContexts := {6, 5, 2, 1}, fresh := 8, wiredNodes := {7, 8, 3, 4},
                      micRequests := 2\<rparr>))) = {2, 1}"
proof -
  have first: "connect_start Disconnected SetupOk initialHook initialWorld =
     (AwaitingMic,
      initialHook\<lparr>status := Connecting, inputAudioContextRef := Some 1,
                   outputAudioContextRef := Some 2, analyzerRef := Some 3, outputGainRef := Some 4\<rparr>,
      initialWorld\<lparr>openContexts := {2, 1}, fresh := 4, wiredNodes := {3, 4}, micRequests := 1\<rparr>)"
    by (simp add: connect_start_def newAudioContext_def newHandle_def connectNode_def
      initialHook_def initialWorld_def eval_nat_numeral)
  have second: "connect_start Disconnected SetupOk
       (initialHook\<lparr>status := Connecting, inputAudioContextRef := Some 1,
                   outputAudioContextRef := Some 2, analyzerRef := Some 3, outputGainRef := Some 4\<rparr>)
       (initialWorld\<lparr>openContexts := {2, 1}, fresh := 4, wiredNodes := {3, 4}, micRequests := 1\<rparr>)
     = (AwaitingMic,
        initialHook\<lparr>status := Connecting, inputAudioContextRef := Some 5,
                   outputAudioContextRef := Some 6, analyzerRef := Some 7, outputGainRef := Some 8\<rparr>,
        initialWorld\<lparr>openContexts := {6, 5, 2, 1}, fresh := 8, wiredNodes := {7, 8, 3, 4},
                      micRequests := 2\<rparr>)"
    by (simp add: connect_start_def newAudioContext_def newHandle_def connectNode_def
      initialHook_def initialWorld_def)
  have leak: "openContexts (snd (disconnect
        (initialHook\<lparr>status := Connecting, inputAudioContextRef := Some 5,
                   outputAudioContextRef := Some 6, analyzerRef := Some 7, outputGainRef := Some 8\<rparr>)
        (initialWorld\<lparr>openContexts := {6, 5, 2, 1}, fresh := 8, wiredNodes := {7, 8, 3, 4},
                      micRequests := 2\<rparr>))) = {2, 1}"
    by (auto simp: disconnect_eq)
  from first second leak show ?thesis
    by (simp only: simp_thms)
qed

subsection \<open>The volume meter\<close>

lemma updateVolume_idle: "\<not> connectedRef s \<Longrightarrow> updateVolume spectrum s w = (s, w)"
  by (simp add: updateVolume_def)

lemma updateVolume_live:
  "connectedRef s \<Longrightarrow> updateVolume spectrum s w =
     (s\<lparr>volume := (if analyzerRef s \<noteq> None then average (getByteFrequencyData spectrum)
                     else volume s),
        animationFrameRef := Some (fresh w + 1)\<rparr>,
      w\<lparr>fresh := fresh w + 1, pendingFrames := insert (fresh w + 1) (pendingFrames w)\<rparr>)"
  by (simp add: updateVolume_def requestAnimationFrame_def newHandle_def)

text \<open>
  Claim C2 as stated fails: the polling loop does not begin when the remote channel
  signals open. \<^verbatim>\<open>connect\<close> itself sets \<^verbatim>\<open>connectedRef\<close> and calls
  \<^verbatim>\<open>updateVolume()\<close> (lines 233 and 234) right after \<^verbatim>\<open>ai.live.connect\<close> has been
  called. After a successful \<^verbatim>\<open>connect\<close> from the first render, and before any
  \<^verbatim>\<open>onopen\<close>, the status is \<open>Connecting\<close> and a tick is already pending.
\<close>

theorem polling_starts_before_open:
  "status (fst (connect Disconnected SetupOk silence initialHook initialWorld)) = Connecting
   \<and> connectedRef (fst (connect Disconnected SetupOk silence initialHook initialWorld))
   \<and> animationFrameRef (fst (connect Disconnected SetupOk silence initialHook initialWorld)) = Some 7
   \<and> 7 \<in> pendingFrames (snd (connect Disconnected SetupOk silence initialHook initialWorld))"
  by (simp add: connect_ok initialWorld_def)

text \<open>
  Claim C2 as amended. A successful \<^verbatim>\<open>connect\<close> starts the loop itself: it leaves the
  status \<open>Connecting\<close>, sets \<^verbatim>\<open>connectedRef\<close>, publishes a first volume and leaves a
  tick pending. \<^verbatim>\<open>onopen\<close> requests no frame. A tick (\<^verbatim>\<open>updateVolume\<close>) with
  \<^verbatim>\<open>connectedRef\<close> false changes nothing, so the loop stops; with \<^verbatim>\<open>connectedRef\<close>
  true it requests exactly one new frame, and publishes the average of the spectrum when
  the analyser exists. \<^verbatim>\<open>disconnect\<close> resets the volume to 0, clears \<^verbatim>\<open>connectedRef\<close>
  and cancels the pending tick.
\<close>

theorem volume_polling:
  "(rendered \<noteq> Connecting \<and> rendered \<noteq> Connected
      \<and> connect rendered SetupOk spectrum s w = (s1, w1) \<longrightarrow>
        status s1 = Connecting \<and> connectedRef s1
        \<and> volume s1 = average (getByteFrequencyData spectrum)
        \<and> animationFrameRef s1 = Some (fresh w1) \<and> fresh w1 \<in> pendingFrames w1)
   \<and> pendingFrames (snd (onopen s2 w2)) = pendingFrames w2
   \<and> (\<not> connectedRef s3 \<longrightarrow> updateVolume spectrum s3 w3 = (s3, w3))
   \<and> (connectedRef s4 \<longrightarrow>
        animationFrameRef (fst (updateVolume spectrum s4 w4)) = Some (fresh w4 + 1)
        \<and> pendingFrames (snd (updateVolume spectrum s4 w4)) = insert (fresh w4 + 1) (pendingFrames w4))
   \<and> (connectedRef s4 \<and> analyzerRef s4 \<noteq> None \<longrightarrow>
        volume (fst (updateVolume spectrum s4 w4)) = average (getByteFrequencyData spectrum))
   \<and> volume (fst (disconnect s5 w5)) = 0 \<and> \<not> connectedRef (fst (disconnect s5 w5))
   \<and> (\<forall>f \<in> set_option (animationFrameRef s5). f \<noteq> 0 \<longrightarrow> f \<notin> pendingFrames (snd (disconnect s5 w5)))"
proof -
  have start: "status s1 = Connecting \<and> connectedRef s1
        \<and> volume s1 = average (getByteFrequencyData spectrum)
        \<and> animationFrameRef s1 = Some (fresh w1) \<and> fresh w1 \<in> pendingFrames w1"
    if "rendered \<noteq> Connecting" "rendered \<noteq> Connected"
       "connect rendered SetupOk spectrum s w = (s1, w1)"
    using that connect_ok [of rendered spectrum s w] by auto
  have opened: "pendingFrames (snd (onopen s2 w2)) = pendingFrames w2"
    by (simp add: onopen_eq)
  have idle: "updateVolume spectrum s3 w3 = (s3, w3)" if "\<not> connectedRef s3"
    using that by (rule updateVolume_idle)
  have live: "animationFrameRef (fst (updateVolume spectrum s4 w4)) = Some (fresh w4 + 1)
        \<and> pendingFrames (snd (updateVolume spectrum s4 w4)) = insert (fresh w4 + 1) (pendingFrames w4)"
    if "connectedRef s4"
    using that by (simp add: updateVolume_live)
  have publish: "volume (fst (updateVolume spectrum s4 w4)) = average (getByteFrequencyData spectrum)"
    if "connectedRef s4" "analyzerRef s4 \<noteq> None"
    using that by (simp add: updateVolume_live)
  have reset: "volume (fst (disconnect s5 w5)) = 0 \<and> \<not> connectedRef (fst (disconnect s5 w5))
     \<and> (\<forall>f \<in> set_option (animationFrameRef s5). f \<noteq> 0 \<longrightarrow> f \<notin> pendingFrames (snd (disconnect s5 w5)))"
    by (auto simp: disconnect_eq)
  from start opened idle live publish reset show ?thesis
    by blast
qed

theorem volume_polling_witness:
  "connect Disconnected SetupOk silence initialHook initialWorld =
     (connectedHook\<lparr>status := Connecting, processorRef := None, inputSourceRef := None\<rparr>,
      connectedWorld\<lparr>fresh := 7, wiredNodes := {3, 4}\<rparr>)
   \<and> animationFrameRef (connectedHook\<lparr>status := Connecting, processorRef := None,
                                        inputSourceRef := None\<rparr>) = Some 7
   \<and> \<not> connectedRef initialHook
   \<and> updateVolume silence initialHook initialWorld = (initialHook, initialWorld)
   \<and> connectedRef connectedHook \<and> analyzerRef connectedHook \<noteq> None
   \<and> animationFrameRef (fst (updateVolume silence connectedHook connectedWorld)) = Some 10
   \<and> volume (fst (updateVolume silence connectedHook connectedWorld)) = 0
   \<and> animationFrameRef connectedHook = Some 7
   \<and> 7 \<notin> pendingFrames (snd (disconnect connectedHook connectedWorld))
   \<and> volume (fst (disconnect connectedHook connectedWorld)) = 0"
  (is "connect _ _ _ _ _ = (?s1, ?w1) \<and> _")
proof -
  have run: "connect Disconnected SetupOk silence initialHook initialWorld = (?s1, ?w1)"
    by (rule connect_ok_initial)
  have hyps: "Disconnected \<noteq> Connecting \<and> Disconnected \<noteq> Connected
      \<and> \<not> connectedRef initialHook \<and> connectedRef connectedHook
      \<and> analyzerRef connectedHook \<noteq> None \<and> animationFrameRef connectedHook = Some 7
      \<and> fresh connectedWorld + 1 = 10 \<and> fresh ?w1 = 7 \<and> (7::nat) \<noteq> 0"
    by (simp add: initialHook_def connectedHook_def connectedWorld_def)
  from volume_polling [of Disconnected silence initialHook initialWorld ?s1 ?w1
      initialHook initialWorld initialHook initialWorld connectedHook connectedWorld
      connectedHook connectedWorld] run hyps
  show ?thesis
    by (simp add: average_silence)
qed

subsection \<open>Messages: interruption\<close>

lemma interrupt_eq:
  "interrupt s w = (s\<lparr>sourcesRef := [], nextStartTimeRef := 0\<rparr>,
                    w\<lparr>sourceState := stopped (sourcesRef s) (sourceState w)\<rparr>)"
  by (simp add: interrupt_def stopAll_eq)

lemma onmessage_frame:
  "onmessage decode m now s w = (e, s', w') \<Longrightarrow>
     s' = s\<lparr>nextStartTimeRef := nextStartTimeRef s', sourcesRef := sourcesRef s'\<rparr>"
  apply (cases "base64Audio m"; cases "outputAudioContextRef s"; cases "outputGainRef s";
         cases "decodeAudioData (decode (the (base64Audio m))) 24000 1";
         cases "interrupted m"; cases "the (base64Audio m) = []")
  apply (simp_all add: onmessage_def handleInterruption_def interrupt_def newHandle_def)
  apply auto
  done

lemma onended_removes:
  "onended h s w = (s', w') \<Longrightarrow> h \<notin> set (sourcesRef s') \<and> stopSource h w' = Inr w'"
  by (auto simp: onended_def stopSource_def)

lemma onmessage_interruption_only:
  "base64Audio m = None \<Longrightarrow> interrupted m \<Longrightarrow>
     onmessage decode m now s w = (None, interrupt s w)"
  by (simp add: onmessage_def handleInterruption_def)

text \<open>
  Claim C4. The interruption block empties the in-flight set and resets the cursor to 0;
  no source of the old in-flight set is playing afterwards; \<^verbatim>\<open>stop\<close> on a source that
  has ended returns without raising and changes nothing (and what \<^verbatim>\<open>stop\<close> raises on
  a source never started is swallowed: \<open>interrupt\<close> is total); a second interruption
  changes neither the hook nor the world. A message that only carries the interruption
  flag runs exactly this block and the handler does not reject.
\<close>

theorem interrupt_flushes:
  assumes "interrupt s w = (s', w')"
  shows "sourcesRef s' = [] \<and> nextStartTimeRef s' = 0
     \<and> (\<forall>h \<in> set (sourcesRef s). sourceState w' h \<noteq> Playing)
     \<and> (\<forall>h. sourceState w h = Stopped \<longrightarrow> stopSource h w = Inr w)
     \<and> interrupt s' w' = (s', w')
     \<and> onmessage decode interruptionMessage now s w = (None, s', w')
     \<and> onmessage decode interruptionMessage now s' w' = (None, s', w')"
proof -
  from assms have s': "s' = s\<lparr>sourcesRef := [], nextStartTimeRef := 0\<rparr>"
    and w': "w' = w\<lparr>sourceState := stopped (sourcesRef s) (sourceState w)\<rparr>"
    by (simp_all add: interrupt_eq)
  have again: "interrupt s' w' = (s', w')"
    unfolding s' w' by (simp add: interrupt_eq stopped_Nil)
  have ended: "stopSource h w = Inr w" if "sourceState w h = Stopped" for h
  proof -
    from that have "(sourceState w)(h := Stopped) = sourceState w"
      by (simp add: fun_eq_iff)
    with that show ?thesis by (simp add: stopSource_def)
  qed
  have silent: "\<forall>h \<in> set (sourcesRef s). sourceState w' h \<noteq> Playing"
    unfolding w' by (simp add: stopped_not_Playing)
  have msg: "onmessage decode interruptionMessage now t v = (None, interrupt t v)" for t v
    by (simp add: onmessage_interruption_only interruptionMessage_def)
  from s' silent ended again msg [of s w] msg [of s' w'] assms show ?thesis
    by simp
qed

theorem interrupt_flushes_witness:
  "interrupt playingHook playingWorld =
     (connectedHook, playingWorld\<lparr>sourceState := (\<lambda>h. if h = 10 \<or> h = 11 then Stopped else Unstarted)\<rparr>)
   \<and> sourceState playingWorld 10 = Playing \<and> sourceState playingWorld 11 = Stopped
   \<and> stopSource 11 playingWorld = Inr playingWorld
   \<and> stopSource 12 playingWorld = Inl InvalidStateError
   \<and> interrupt connectedHook
        (playingWorld\<lparr>sourceState := (\<lambda>h. if h = 10 \<or> h = 11 then Stopped else Unstarted)\<rparr>)
      = (connectedHook,
         playingWorld\<lparr>sourceState := (\<lambda>h. if h = 10 \<or> h = 11 then Stopped else Unstarted)\<rparr>)"
  (is "interrupt _ _ = (_, ?w1) \<and> _")
proof -
  have run: "interrupt playingHook playingWorld = (connectedHook, ?w1)"
    by (auto simp add: interrupt_eq stopped_def playingHook_def playingWorld_def connectedHook_def
        fun_eq_iff)
  have st: "sourceState playingWorld 10 = Playing \<and> sourceState playingWorld 11 = Stopped
      \<and> stopSource 12 playingWorld = Inl InvalidStateError"
    by (simp add: playingWorld_def stopSource_def)
  from interrupt_flushes [OF run] run st show ?thesis
    by simp
qed

text \<open>
  Claim C6. Handling a message with the interruption flag, while the status is
  \<open>Connected\<close>, leaves the status \<open>Connected\<close> and changes no field of the hook other
  than \<^verbatim>\<open>nextStartTimeRef\<close> and \<^verbatim>\<open>sourcesRef\<close>; when the message carries no audio,
  the new state is the old one with an empty in-flight set and the cursor at 0.
\<close>

theorem interruption_is_not_a_transition:
  assumes "interrupted m" and "status s = Connected"
    and "onmessage decode m now s w = (e, s', w')"
  shows "status s' = Connected
     \<and> s' = s\<lparr>nextStartTimeRef := nextStartTimeRef s', sourcesRef := sourcesRef s'\<rparr>
     \<and> (base64Audio m = None \<longrightarrow>
          e = None \<and> s' = s\<lparr>sourcesRef := [], nextStartTimeRef := 0\<rparr>)"
proof -
  have frame: "s' = s\<lparr>nextStartTimeRef := nextStartTimeRef s', sourcesRef := sourcesRef s'\<rparr>"
    by (rule onmessage_frame [OF assms(3)])
  have "status s' = status (s\<lparr>nextStartTimeRef := nextStartTimeRef s', sourcesRef := sourcesRef s'\<rparr>)"
    using frame by simp
  then have st: "status s' = Connected"
    using assms(2) by simp
  have only: "e = None \<and> s' = s\<lparr>sourcesRef := [], nextStartTimeRef := 0\<rparr>"
    if "base64Audio m = None"
    using onmessage_interruption_only [OF that assms(1), of decode now s w] assms(3)
    by (simp add: interrupt_eq)
  from st frame only show ?thesis by blast
qed

theorem interruption_is_not_a_transition_witness:
  "interrupted interruptionMessage \<and> status playingHook = Connected
   \<and> base64Audio interruptionMessage = None
   \<and> onmessage bytesOfString interruptionMessage 4 playingHook playingWorld =
       (None, connectedHook, snd (interrupt playingHook playingWorld))
   \<and> status connectedHook = Connected
   \<and> connectedHook = playingHook\<lparr>sourcesRef := [], nextStartTimeRef := 0\<rparr>"
proof -
  have hyps: "interrupted interruptionMessage \<and> status playingHook = Connected
      \<and> base64Audio interruptionMessage = None"
    by (simp add: interruptionMessage_def playingHook_def connectedHook_def)
  have run: "onmessage bytesOfString interruptionMessage 4 playingHook playingWorld =
       (None, connectedHook, snd (interrupt playingHook playingWorld))"
    by (simp add: onmessage_interruption_only hyps interrupt_eq playingHook_def connectedHook_def)
  from interruption_is_not_a_transition [OF _ _ run] hyps run show ?thesis
    by simp
qed

subsection \<open>Messages: scheduling\<close>

lemma bufferOf_SomeD:
  "bufferOf decode m = Some buf \<Longrightarrow>
     \<exists>b. base64Audio m = Some b \<and> b \<noteq> [] \<and> decodeAudioData (decode b) 24000 1 = Inr buf"
  by (simp add: bufferOf_def split: option.splits sum.splits if_splits)

lemma onmessage_schedule:
  assumes "outputAudioContextRef s = Some c" "outputGainRef s = Some g"
    "bufferOf decode m = Some buf" "\<not> interrupted m"
  shows "onmessage decode m now s w =
     (None,
      s\<lparr>nextStartTimeRef := max (nextStartTimeRef s) now + duration buf,
        sourcesRef := setAdd (fresh w + 1) (sourcesRef s)\<rparr>,
      w\<lparr>fresh := fresh w + 1,
        sourceState := (sourceState w)(fresh w + 1 := Playing),
        timeline := timeline w @ [(fresh w + 1, max (nextStartTimeRef s) now, duration buf)]\<rparr>)"
proof -
  from bufferOf_SomeD [OF assms(3)] obtain b where
    "base64Audio m = Some b" "b \<noteq> []" "decodeAudioData (decode b) 24000 1 = Inr buf"
    by blast
  with assms(1,2,4) show ?thesis
    by (simp add: onmessage_def handleInterruption_def newHandle_def startSource_def)
qed

lemma duration_nonneg: "0 \<le> duration b"
  by (simp add: duration_def)

lemma length_windows: "length (windows t ds) = length ds"
  by (induction ds arbitrary: t) simp_all

lemma nth_windows:
  "i < length ds \<Longrightarrow> windows t ds ! i = (t + sum_list (take i ds), ds ! i)"
proof (induction ds arbitrary: t i)
  case Nil
  then show ?case by simp
next
  case (Cons d ds)
  show ?case
  proof (cases i)
    case 0
    then show ?thesis by simp
  next
    case (Suc k)
    with Cons.prems have "k < length ds" by simp
    from Cons.IH [OF this, of "t + d"] Suc show ?thesis by (simp add: add.assoc)
  qed
qed

lemma sum_list_take_mono:
  "\<forall>d \<in> set ds. (0::real) \<le> d \<Longrightarrow> i \<le> j \<Longrightarrow> sum_list (take i ds) \<le> sum_list (take j ds)"
proof (induction ds arbitrary: i j)
  case Nil
  then show ?case by simp
next
  case (Cons d ds)
  show ?case
  proof (cases i)
    case 0
    have "\<And>x. x \<in> set (take j (d # ds)) \<Longrightarrow> 0 \<le> x"
      using Cons.prems(1) in_set_takeD by fast
    then have "0 \<le> sum_list (take j (d # ds))"
      by (rule sum_list_nonneg)
    with 0 show ?thesis by simp
  next
    case (Suc k)
    with Cons.prems(2) obtain l where j: "j = Suc l" and "k \<le> l"
      by (cases j) auto
    with Cons.IH [of k l] Cons.prems(1) Suc show ?thesis by simp
  qed
qed

lemma sum_list_take_Suc:
  "i < length ds \<Longrightarrow> sum_list (take (Suc i) ds) = sum_list (take i ds) + (ds ! i :: real)"
  by (simp add: take_Suc_conv_app_nth)

lemma onmessages_timeline:
  assumes "outputAudioContextRef s = Some c" "outputGainRef s = Some g"
    "\<forall>m \<in> set ms. bufferOf decode m \<noteq> None \<and> \<not> interrupted m"
  shows "map snd (timeline (snd (onmessages decode now ms s w))) =
           map snd (timeline w) @ windows (max (nextStartTimeRef s) now) (durations decode ms)
       \<and> nextStartTimeRef (fst (onmessages decode now ms s w)) =
           (if ms = [] then nextStartTimeRef s
            else max (nextStartTimeRef s) now + sum_list (durations decode ms))"
  using assms
proof (induction ms arbitrary: s w)
  case Nil
  show ?case by (simp add: durations_def)
next
  case (Cons m ms)
  from Cons.prems(3) obtain buf where buf: "bufferOf decode m = Some buf" and ni: "\<not> interrupted m"
    by auto
  let ?t = "max (nextStartTimeRef s) now"
  let ?s1 = "s\<lparr>nextStartTimeRef := ?t + duration buf,
               sourcesRef := setAdd (fresh w + 1) (sourcesRef s)\<rparr>"
  let ?w1 = "w\<lparr>fresh := fresh w + 1,
               sourceState := (sourceState w)(fresh w + 1 := Playing),
               timeline := timeline w @ [(fresh w + 1, ?t, duration buf)]\<rparr>"
  have step: "onmessage decode m now s w = (None, ?s1, ?w1)"
    by (rule onmessage_schedule [OF Cons.prems(1,2) buf ni])
  have refs: "outputAudioContextRef ?s1 = Some c" "outputGainRef ?s1 = Some g"
    using Cons.prems(1,2) by simp_all
  have rest: "\<forall>m \<in> set ms. bufferOf decode m \<noteq> None \<and> \<not> interrupted m"
    using Cons.prems(3) by simp
  have cursor: "max (nextStartTimeRef ?s1) now = ?t + duration buf"
    using duration_nonneg [of buf] by simp
  have here: "nextStartTimeRef ?s1 = ?t + duration buf"
    by simp
  have IH: "map snd (timeline (snd (onmessages decode now ms ?s1 ?w1))) =
          map snd (timeline ?w1) @ windows (?t + duration buf) (durations decode ms)
     \<and> nextStartTimeRef (fst (onmessages decode now ms ?s1 ?w1)) =
          (if ms = [] then ?t + duration buf
           else ?t + duration buf + sum_list (durations decode ms))"
    using Cons.IH [OF refs rest, of ?w1] duration_nonneg [of buf] by simp
  from IH
  have ih: "map snd (timeline (snd (onmessages decode now ms ?s1 ?w1))) =
          map snd (timeline ?w1) @ windows (?t + duration buf) (durations decode ms)"
    by (rule conjunct1)
  from IH
  have ih2: "nextStartTimeRef (fst (onmessages decode now ms ?s1 ?w1)) =
          (if ms = [] then ?t + duration buf
           else ?t + duration buf + sum_list (durations decode ms))"
    by (rule conjunct2)
  have run: "onmessages decode now (m # ms) s w = onmessages decode now ms ?s1 ?w1"
    using step by simp
  have ds: "durations decode (m # ms) = duration buf # durations decode ms"
    using buf by (simp add: durations_def)
  have nil: "ms = [] \<Longrightarrow> durations decode ms = []"
    by (simp add: durations_def)
  show ?case
    unfolding run ds using ih ih2 nil by (simp add: add.assoc)
qed

lemma length_int16s: "length (int16s data) = length data div 2"
  by (induction data rule: int16s.induct) simp_all

lemma duration_decoded:
  "decodeAudioData data rate 1 = Inr buf \<Longrightarrow> duration buf = real (length data div 2) / real rate"
  by (auto simp: decodeAudioData_def duration_def length_int16s Let_def split: if_splits)

lemma duration_audioMessage:
  assumes "b \<noteq> []" "even (length b)"
  shows "bufferOf bytesOfString (audioMessage b) \<noteq> None
       \<and> duration (the (bufferOf bytesOfString (audioMessage b))) = real (length b div 2) / 24000"
proof -
  from assms(2) have "length (bytesOfString b) mod (2 * 1) = 0"
    by (simp add: bytesOfString_def)
  then obtain buf where buf: "decodeAudioData (bytesOfString b) 24000 1 = Inr buf"
    by (simp add: decodeAudioData_def Let_def)
  with assms(1) have "bufferOf bytesOfString (audioMessage b) = Some buf"
    by (simp add: bufferOf_def audioMessage_def)
  with duration_decoded [OF buf] show ?thesis
    by (simp add: bytesOfString_def)
qed

text \<open>
  Claim C5. A message that carries a decodable buffer (and no interruption flag) starts
  one new source at \<open>max nextStartTime now\<close>, leaves the cursor at that start plus the
  buffer's duration and adds the source to the in-flight set. A run of \<open>N\<close> such
  messages, handled at a fixed output clock \<open>now\<close>, appends \<open>N\<close> entries to the
  timeline. Entry \<open>i\<close> starts at \<open>max nextStartTime now\<close> plus the durations of the
  buffers before it and lasts the duration of buffer \<open>i\<close>; so the first (and, applied to
  a run of one message, every) buffer starts at \<open>max nextStartTime now\<close> and the cursor
  ends at that start plus the durations. The windows do not overlap: each ends no later
  than every later one starts. From a cursor at 0 with the clock at 0 the start times are
  the cumulative sums of the earlier durations.
\<close>

theorem gapless_schedule:
  assumes "outputAudioContextRef s = Some c" and "outputGainRef s = Some g"
    and "\<forall>m \<in> set ms. bufferOf decode m \<noteq> None \<and> \<not> interrupted m"
    and "onmessages decode now ms s w = (s', w')"
  shows "(bufferOf decode m1 = Some buf \<and> \<not> interrupted m1 \<longrightarrow>
       onmessage decode m1 now s w =
         (None,
          s\<lparr>nextStartTimeRef := max (nextStartTimeRef s) now + duration buf,
            sourcesRef := setAdd (fresh w + 1) (sourcesRef s)\<rparr>,
          w\<lparr>fresh := fresh w + 1,
            sourceState := (sourceState w)(fresh w + 1 := Playing),
            timeline := timeline w @ [(fresh w + 1, max (nextStartTimeRef s) now, duration buf)]\<rparr>))
    \<and> length (timeline w') = length (timeline w) + length ms
    \<and> (\<forall>i < length ms.
          snd (timeline w' ! (length (timeline w) + i)) =
            (max (nextStartTimeRef s) now + sum_list (take i (durations decode ms)),
             durations decode ms ! i))
    \<and> (\<forall>i j. i < j \<and> j < length ms \<longrightarrow>
          fst (snd (timeline w' ! (length (timeline w) + i)))
            + snd (snd (timeline w' ! (length (timeline w) + i)))
          \<le> fst (snd (timeline w' ! (length (timeline w) + j))))
    \<and> (nextStartTimeRef s = 0 \<and> now = 0 \<longrightarrow>
         (\<forall>i < length ms.
            fst (snd (timeline w' ! (length (timeline w) + i))) =
              sum_list (take i (durations decode ms))))
    \<and> (ms \<noteq> [] \<longrightarrow>
          nextStartTimeRef s' = max (nextStartTimeRef s) now + sum_list (durations decode ms))"
proof -
  let ?ds = "durations decode ms"
  let ?t = "max (nextStartTimeRef s) now"
  let ?n = "length (timeline w)"
  from onmessages_timeline [OF assms(1-3), of now w] assms(4)
  have tl: "map snd (timeline w') = map snd (timeline w) @ windows ?t ?ds"
    and cur: "nextStartTimeRef s' = (if ms = [] then nextStartTimeRef s else ?t + sum_list ?ds)"
    by simp_all
  have len_ds: "length ?ds = length ms"
    by (simp add: durations_def)
  from tl have "length (map snd (timeline w')) = length (map snd (timeline w) @ windows ?t ?ds)"
    by simp
  then have len: "length (timeline w') = ?n + length ms"
    by (simp add: length_windows len_ds)
  have entry: "snd (timeline w' ! (?n + i)) = (?t + sum_list (take i ?ds), ?ds ! i)"
    if "i < length ms" for i
  proof -
    have "snd (timeline w' ! (?n + i)) = map snd (timeline w') ! (?n + i)"
      using that len by simp
    also have "\<dots> = windows ?t ?ds ! i"
      unfolding tl by (simp add: nth_append)
    also have "\<dots> = (?t + sum_list (take i ?ds), ?ds ! i)"
      using that len_ds by (simp add: nth_windows)
    finally show ?thesis .
  qed
  have nonneg: "\<forall>d \<in> set ?ds. 0 \<le> d"
    by (auto simp: durations_def duration_nonneg)
  have apart: "fst (snd (timeline w' ! (?n + i))) + snd (snd (timeline w' ! (?n + i)))
          \<le> fst (snd (timeline w' ! (?n + j)))"
    if "i < j" "j < length ms" for i j
  proof -
    from that have i: "i < length ms" by simp
    have "sum_list (take i ?ds) + ?ds ! i = sum_list (take (Suc i) ?ds)"
      using i len_ds by (simp add: sum_list_take_Suc)
    also have "\<dots> \<le> sum_list (take j ?ds)"
      using nonneg that(1) by (intro sum_list_take_mono) simp_all
    finally show ?thesis
      using entry [OF i] entry [OF that(2)] by simp
  qed
  have zero: "fst (snd (timeline w' ! (?n + i))) = sum_list (take i ?ds)"
    if "nextStartTimeRef s = 0" "now = 0" "i < length ms" for i
    using entry [OF that(3)] that(1,2) by simp
  from len entry apart zero cur
  have run: "length (timeline w') = length (timeline w) + length ms
    \<and> (\<forall>i < length ms.
          snd (timeline w' ! (length (timeline w) + i)) =
            (max (nextStartTimeRef s) now + sum_list (take i (durations decode ms)),
             durations decode ms ! i))
    \<and> (\<forall>i j. i < j \<and> j < length ms \<longrightarrow>
          fst (snd (timeline w' ! (length (timeline w) + i)))
            + snd (snd (timeline w' ! (length (timeline w) + i)))
          \<le> fst (snd (timeline w' ! (length (timeline w) + j))))
    \<and> (nextStartTimeRef s = 0 \<and> now = 0 \<longrightarrow>
         (\<forall>i < length ms.
            fst (snd (timeline w' ! (length (timeline w) + i))) =
              sum_list (take i (durations decode ms))))
    \<and> (ms \<noteq> [] \<longrightarrow>
          nextStartTimeRef s' = max (nextStartTimeRef s) now + sum_list (durations decode ms))"
    by auto
  have single: "bufferOf decode m1 = Some buf \<and> \<not> interrupted m1 \<longrightarrow>
       onmessage decode m1 now s w =
         (None,
          s\<lparr>nextStartTimeRef := max (nextStartTimeRef s) now + duration buf,
            sourcesRef := setAdd (fresh w + 1) (sourcesRef s)\<rparr>,
          w\<lparr>fresh := fresh w + 1,
            sourceState := (sourceState w)(fresh w + 1 := Playing),
            timeline := timeline w @ [(fresh w + 1, max (nextStartTimeRef s) now, duration buf)]\<rparr>)"
    using onmessage_schedule [OF assms(1,2), of decode m1 buf now w] by blast
  from single run show ?thesis
    by (rule conjI)
qed

theorem gapless_schedule_witness:
  "outputAudioContextRef connectedHook = Some 2 \<and> outputGainRef connectedHook = Some 4
   \<and> nextStartTimeRef connectedHook = 0 \<and> timeline connectedWorld = []
   \<and> bufferOf bytesOfString (audioMessage ''ab'') \<noteq> None
   \<and> \<not> interrupted (audioMessage ''ab'')
   \<and> bufferOf bytesOfString (audioMessage ''abcd'') \<noteq> None
   \<and> \<not> interrupted (audioMessage ''abcd'')
   \<and> nextStartTimeRef (fst (snd (onmessage bytesOfString (audioMessage ''ab'') 0
        connectedHook connectedWorld))) = 1 / 24000
   \<and> timeline (snd (snd (onmessage bytesOfString (audioMessage ''ab'') 0
        connectedHook connectedWorld))) = [(10, 0, 1 / 24000)]
   \<and> durations bytesOfString [audioMessage ''ab'', audioMessage ''abcd'', audioMessage ''ab'']
        = [1 / 24000, 2 / 24000, 1 / 24000]
   \<and> snd (timeline (snd (onmessages bytesOfString 0
        [audioMessage ''ab'', audioMessage ''abcd'', audioMessage ''ab''] connectedHook connectedWorld)) ! 0)
      = (0, 1 / 24000)
   \<and> snd (timeline (snd (onmessages bytesOfString 0
        [audioMessage ''ab'', audioMessage ''abcd'', audioMessage ''ab''] connectedHook connectedWorld)) ! 1)
      = (1 / 24000, 2 / 24000)
   \<and> snd (timeline (snd (onmessages bytesOfString 0
        [audioMessage ''ab'', audioMessage ''abcd'', audioMessage ''ab''] connectedHook connectedWorld)) ! 2)
      = (3 / 24000, 1 / 24000)
   \<and> nextStartTimeRef (fst (onmessages bytesOfString 0
        [audioMessage ''ab'', audioMessage ''abcd'', audioMessage ''ab''] connectedHook connectedWorld))
      = 4 / 24000"
proof -
  let ?ms = "[audioMessage ''ab'', audioMessage ''abcd'', audioMessage ''ab'']"
  define r where "r = onmessages bytesOfString 0 ?ms connectedHook connectedWorld"
  have refs: "outputAudioContextRef connectedHook = Some 2" "outputGainRef connectedHook = Some 4"
    "nextStartTimeRef connectedHook = 0" "timeline connectedWorld = []"
    by (simp_all add: connectedHook_def connectedWorld_def)
  have ok: "\<forall>m \<in> set ?ms. bufferOf bytesOfString m \<noteq> None \<and> \<not> interrupted m"
    using duration_audioMessage [of "''ab''"] duration_audioMessage [of "''abcd''"]
    by (simp add: audioMessage_def)
  have ds: "durations bytesOfString ?ms = [1 / 24000, 2 / 24000, 1 / 24000]"
    using duration_audioMessage [of "''ab''"] duration_audioMessage [of "''abcd''"]
    by (simp add: durations_def)
  have run: "onmessages bytesOfString 0 ?ms connectedHook connectedWorld = (fst r, snd r)"
    by (simp add: r_def)
  have one: "bufferOf bytesOfString (audioMessage ''ab'') =
      Some (the (bufferOf bytesOfString (audioMessage ''ab'')))"
    "duration (the (bufferOf bytesOfString (audioMessage ''ab''))) = 1 / 24000"
    "\<not> interrupted (audioMessage ''ab'')"
    using duration_audioMessage [of "''ab''"] by (auto simp: audioMessage_def)
  note inst = gapless_schedule [OF refs(1,2) ok run, unfolded ds refs(3,4),
      of "audioMessage ''ab''" "the (bufferOf bytesOfString (audioMessage ''ab''))"]
  from inst one
  have first: "onmessage bytesOfString (audioMessage ''ab'') 0 connectedHook connectedWorld =
         (None,
          connectedHook\<lparr>nextStartTimeRef := max 0 0 + 1 / 24000,
            sourcesRef := setAdd (fresh connectedWorld + 1) (sourcesRef connectedHook)\<rparr>,
          connectedWorld\<lparr>fresh := fresh connectedWorld + 1,
            sourceState := (sourceState connectedWorld)(fresh connectedWorld + 1 := Playing),
            timeline := [] @ [(fresh connectedWorld + 1, max 0 0, 1 / 24000)]\<rparr>)"
    by simp
  have step: "nextStartTimeRef (fst (snd (onmessage bytesOfString (audioMessage ''ab'') 0
        connectedHook connectedWorld))) = 1 / 24000"
    "timeline (snd (snd (onmessage bytesOfString (audioMessage ''ab'') 0
        connectedHook connectedWorld))) = [(10, 0, 1 / 24000)]"
    unfolding first by (simp_all add: connectedWorld_def)
  from inst have entry: "\<forall>i < 3. snd (timeline (snd r) ! (0 + i)) =
      (max 0 0 + sum_list (take i [1 / 24000, 2 / 24000, 1 / 24000]),
       [1 / 24000, 2 / 24000, 1 / 24000] ! i)"
    by simp
  have e0: "snd (timeline (snd r) ! 0) = (0, 1 / 24000)"
    using entry [rule_format, of 0] by simp
  have e1: "snd (timeline (snd r) ! 1) = (1 / 24000, 2 / 24000)"
    using entry [rule_format, of 1] by simp
  have e2: "snd (timeline (snd r) ! 2) = (3 / 24000, 1 / 24000)"
    using entry [rule_format, of 2] by (simp add: eval_nat_numeral)
  from inst have cur: "nextStartTimeRef (fst r) = 4 / 24000"
    by simp
  from ok have each: "bufferOf bytesOfString (audioMessage ''ab'') \<noteq> None"
    "\<not> interrupted (audioMessage ''ab'')"
    "bufferOf bytesOfString (audioMessage ''abcd'') \<noteq> None"
    "\<not> interrupted (audioMessage ''abcd'')"
    by simp_all
  from refs each step ds e0 e1 e2 cur show ?thesis
    unfolding r_def by blast
qed

subsection \<open>Messages: a malformed payload\<close>

lemma decodeAudioData_rejects:
  "length data mod (2 * numChannels) \<noteq> 0 \<Longrightarrow> decodeAudioData data rate numChannels = Inl RangeError"
  by (simp add: decodeAudioData_def)

lemma onmessage_malformed:
  assumes "base64Audio m = Some b" "b \<noteq> []" "outputAudioContextRef s = Some c"
    "length (decode b) mod 2 \<noteq> 0"
  shows "onmessage decode m now s w =
     (Some RangeError, s\<lparr>nextStartTimeRef := max (nextStartTimeRef s) now\<rparr>, w)"
  using assms by (simp add: onmessage_def decodeAudioData_def)

text \<open>
  Claim C8 as stated fails in its last part: the state is not otherwise unchanged. The
  handler raises the cursor to \<open>max nextStartTime now\<close> (line 175) before it decodes the
  payload (line 177). A three-byte payload at output clock 5, cursor 0: the decoder
  rejects, the status stays \<open>Connected\<close>, and the cursor is 5.
\<close>

theorem malformed_chunk_moves_cursor:
  "decodeAudioData (bytesOfString ''abc'') 24000 1 = Inl RangeError
   \<and> status connectedHook = Connected \<and> nextStartTimeRef connectedHook = 0
   \<and> onmessage bytesOfString (audioMessage ''abc'') 5 connectedHook connectedWorld =
        (Some RangeError, connectedHook\<lparr>nextStartTimeRef := 5\<rparr>, connectedWorld)
   \<and> nextStartTimeRef (connectedHook\<lparr>nextStartTimeRef := 5\<rparr>) = 5"
  by (simp add: onmessage_def decodeAudioData_def bytesOfString_def audioMessage_def
      connectedHook_def)

text \<open>
  Claim C8 as amended. The decoder rejects every byte sequence whose length is not a
  multiple of two bytes times the channel count. When the payload of a message is such a
  sequence (one channel), the handler rejects with the decoder's error and the chunk is
  dropped: no source is created or started (the world is unchanged), the status stays
  \<open>Connected\<close>, the in-flight set and every other field are unchanged, except that the
  cursor has been raised to \<open>max nextStartTime now\<close>.
\<close>

theorem malformed_chunk_dropped:
  "(length data mod (2 * numChannels) \<noteq> 0 \<longrightarrow>
      decodeAudioData data rate numChannels = Inl RangeError)
   \<and> (base64Audio m = Some b \<and> b \<noteq> [] \<and> length (decode b) mod (2 * 1) \<noteq> 0
        \<and> status s = Connected \<and> outputAudioContextRef s = Some c \<longrightarrow>
      onmessage decode m now s w =
        (Some RangeError, s\<lparr>nextStartTimeRef := max (nextStartTimeRef s) now\<rparr>, w)
      \<and> status (s\<lparr>nextStartTimeRef := max (nextStartTimeRef s) now\<rparr>) = Connected
      \<and> sourcesRef (s\<lparr>nextStartTimeRef := max (nextStartTimeRef s) now\<rparr>) = sourcesRef s)"
proof -
  have dec: "decodeAudioData data rate numChannels = Inl RangeError"
    if "length data mod (2 * numChannels) \<noteq> 0"
    using that by (rule decodeAudioData_rejects)
  have msg: "onmessage decode m now s w =
        (Some RangeError, s\<lparr>nextStartTimeRef := max (nextStartTimeRef s) now\<rparr>, w)"
    if "base64Audio m = Some b" "b \<noteq> []" "length (decode b) mod (2 * 1) \<noteq> 0"
       "outputAudioContextRef s = Some c"
    using that by (simp add: onmessage_malformed)
  have st: "status (s\<lparr>nextStartTimeRef := max (nextStartTimeRef s) now\<rparr>) = Connected"
    if "status s = Connected"
    using that by simp
  from dec msg st show ?thesis
    by simp
qed

theorem malformed_chunk_dropped_witness:
  "length (bytesOfString ''abc'') mod (2 * 1) \<noteq> 0
   \<and> decodeAudioData (bytesOfString ''abc'') 24000 1 = Inl RangeError
   \<and> base64Audio (audioMessage ''abc'') = Some ''abc''
   \<and> status playingHook = Connected \<and> outputAudioContextRef playingHook = Some 2
   \<and> onmessage bytesOfString (audioMessage ''abc'') 5 playingHook playingWorld =
        (Some RangeError, playingHook\<lparr>nextStartTimeRef := 5\<rparr>, playingWorld)"
proof -
  have hyps: "length (bytesOfString ''abc'') mod (2 * 1) \<noteq> 0
      \<and> base64Audio (audioMessage ''abc'') = Some ''abc'' \<and> ''abc'' \<noteq> []
      \<and> status playingHook = Connected \<and> outputAudioContextRef playingHook = Some 2
      \<and> max (nextStartTimeRef playingHook) 5 = 5"
    by (simp add: bytesOfString_def audioMessage_def playingHook_def connectedHook_def)
  from malformed_chunk_dropped [of "bytesOfString ''abc''" 1 24000 "audioMessage ''abc''" "''abc''"
      bytesOfString playingHook 2 5 playingWorld] hyps
  show ?thesis
    by simp
qed

subsection \<open>The PCM codec\<close>

lemma le16_bytes:
  "or (push_bit 8 (ucast (ucast (drop_bit 8 v) :: byte))) (ucast (ucast v :: byte)) = (v :: 16 word)"
  by (rule bit_word_eqI) (auto simp: bit_simps)

lemma int16s_le16: "int16s (le16 v @ rest) = v # int16s rest"
  by (simp add: le16_def le16_bytes)

lemma int16s_concat_le16: "int16s (concat (map le16 vs)) = vs"
  by (induction vs) (simp_all add: int16s_le16)

lemma length_createBlob: "length (createBlob rnd samples) = 2 * length samples"
  by (induction samples) (simp_all add: createBlob_def le16_def)

lemma sint_int16: "- 32768 \<le> n \<Longrightarrow> n \<le> 32767 \<Longrightarrow> sint (word_of_int n :: 16 word) = n"
  by (simp add: sint_sbintrunc' signed_take_bit_int_eq_self)

lemma signed_int16:
  "- 32768 \<le> n \<Longrightarrow> n \<le> 32767 \<Longrightarrow> (signed (word_of_int n :: 16 word) :: real) = real_of_int n"
proof -
  assume range: "- 32768 \<le> n" "n \<le> 32767"
  have "(signed (word_of_int n :: 16 word) :: real) = real_of_int (sint (word_of_int n :: 16 word))"
    by (rule of_int_sint [symmetric])
  also have "\<dots> = real_of_int n"
    by (simp only: sint_int16 [OF range])
  finally show ?thesis .
qed

lemma toInt16_range: "- 32768 \<le> toInt16 rnd x \<and> toInt16 rnd x \<le> 32767"
  by (simp add: toInt16_def)

lemma toInt16_close:
  assumes "\<bar>real_of_int (rnd (x * 32768)) - x * 32768\<bar> < 1" "- 1 \<le> x" "x \<le> 1"
  shows "\<bar>real_of_int (toInt16 rnd x) / 32768 - x\<bar> \<le> 1 / 32768"
proof -
  let ?y = "x * 32768"
  let ?n = "rnd ?y"
  have y: "- 32768 \<le> ?y" "?y \<le> 32768"
    using assms(2,3) by simp_all
  have "\<bar>real_of_int (toInt16 rnd x) - ?y\<bar> \<le> 1"
  proof (cases "?n > 32767")
    case True
    then have "toInt16 rnd x = 32767" by (simp add: toInt16_def)
    moreover from True have "real_of_int ?n \<ge> 32768" by linarith
    ultimately show ?thesis using assms(1) y by simp
  next
    case False
    show ?thesis
    proof (cases "?n < - 32768")
      case True
      then have "real_of_int ?n \<le> - 32769" by linarith
      with assms(1) y show ?thesis by linarith
    next
      case False
      with \<open>\<not> ?n > 32767\<close> have "toInt16 rnd x = ?n" by (simp add: toInt16_def)
      with assms(1) show ?thesis by simp
    qed
  qed
  then have "\<bar>(real_of_int (toInt16 rnd x) - ?y) / 32768\<bar> \<le> 1 / 32768"
    by (simp add: divide_le_cancel)
  then show ?thesis
    by (simp add: diff_divide_distrib)
qed


lemma decode_createBlob:
  "decodeAudioData (createBlob rnd samples) rate 1 =
     Inr \<lparr>numberOfChannels = 1, sampleRate = rate, frames = length samples,
          channelData = [map (\<lambda>x. real_of_int (toInt16 rnd x) / 32768) samples]\<rparr>"
proof -
  let ?vs = "map (\<lambda>x. word_of_int (toInt16 rnd x) :: 16 word) samples"
  have blob: "createBlob rnd samples = concat (map le16 ?vs)"
    by (simp add: createBlob_def comp_def)
  have ints: "int16s (createBlob rnd samples) = ?vs"
    unfolding blob by (rule int16s_concat_le16)
  have "map (\<lambda>i. real_of_int (sint (?vs ! i)) / 32768) [0..<length samples] =
        map (\<lambda>x. real_of_int (toInt16 rnd x) / 32768) samples"
    by (rule nth_equalityI) (simp_all add: signed_int16 toInt16_range)
  then show ?thesis
    by (simp add: decodeAudioData_def length_createBlob ints)
qed

text \<open>
  Claim C9. For every frame of samples in [-1, 1] and every rounding that stays within
  less than 1 of its argument (floor, ceiling, truncation and rounding to nearest all
  do), decoding the encoded frame as one channel at any sample rate succeeds, yields as
  many frames as there were samples, and each decoded sample is within 1/32768 of the
  original. The arithmetic is exact in floating point too: the encoder scales by a power
  of two and the decoder divides a 16-bit integer by a power of two.
\<close>

theorem pcm_round_trip:
  assumes "\<forall>y. \<bar>real_of_int (rnd y) - y\<bar> < 1"
    and "\<forall>x \<in> set samples. - 1 \<le> x \<and> x \<le> 1"
  shows "\<exists>buf. decodeAudioData (createBlob rnd samples) rate 1 = Inr buf
           \<and> numberOfChannels buf = 1 \<and> sampleRate buf = rate \<and> frames buf = length samples
           \<and> length (channelData buf) = 1 \<and> length (channelData buf ! 0) = length samples
           \<and> (\<forall>i < length samples. \<bar>channelData buf ! 0 ! i - samples ! i\<bar> \<le> 1 / 32768)"
proof -
  let ?out = "map (\<lambda>x. real_of_int (toInt16 rnd x) / 32768) samples"
  have close: "\<bar>?out ! i - samples ! i\<bar> \<le> 1 / 32768" if "i < length samples" for i
  proof -
    from that assms(2) have "- 1 \<le> samples ! i" "samples ! i \<le> 1"
      by simp_all
    with assms(1) have "\<bar>real_of_int (toInt16 rnd (samples ! i)) / 32768 - samples ! i\<bar> \<le> 1 / 32768"
      by (intro toInt16_close) simp_all
    with that show ?thesis by simp
  qed
  let ?buf = "\<lparr>numberOfChannels = 1, sampleRate = rate, frames = length samples,
               channelData = [?out]\<rparr>"
  have dec: "decodeAudioData (createBlob rnd samples) rate 1 = Inr ?buf"
    by (rule decode_createBlob)
  have shape: "numberOfChannels ?buf = 1 \<and> sampleRate ?buf = rate \<and> frames ?buf = length samples
      \<and> length (channelData ?buf) = 1 \<and> length (channelData ?buf ! 0) = length samples"
    by simp
  have err: "\<forall>i < length samples. \<bar>channelData ?buf ! 0 ! i - samples ! i\<bar> \<le> 1 / 32768"
    using close by simp
  from dec shape err show ?thesis
    by blast
qed

theorem pcm_round_trip_witness:
  "(\<forall>y. \<bar>real_of_int \<lfloor>y\<rfloor> - y\<bar> < 1)
   \<and> set [1, - 1, 1 / 3] \<subseteq> {- 1 .. 1 :: real}
   \<and> createBlob floor [1, - 1, 1 / 3] = [255, 127, 0, 128, 170, 42]
   \<and> decodeAudioData [255, 127, 0, 128, 170, 42] 16000 1 =
        Inr \<lparr>numberOfChannels = 1, sampleRate = 16000, frames = 3,
             channelData = [[32767 / 32768, - 1, 10922 / 32768]]\<rparr>
   \<and> \<bar>32767 / 32768 - (1::real)\<bar> \<le> 1 / 32768
   \<and> \<bar>- 1 - (- 1::real)\<bar> \<le> 1 / 32768
   \<and> \<bar>10922 / 32768 - (1 / 3::real)\<bar> \<le> 1 / 32768"
proof -
  let ?buf = "\<lparr>numberOfChannels = 1, sampleRate = 16000, frames = 3,
               channelData = [[32767 / 32768, - 1, 10922 / 32768 :: real]]\<rparr>"
  have rnd: "\<forall>y. \<bar>real_of_int \<lfloor>y\<rfloor> - y\<bar> < 1"
    by (intro allI) linarith
  have range: "\<forall>x \<in> set [1, - 1, 1 / 3]. - 1 \<le> x \<and> x \<le> (1::real)"
    by simp
  have f: "\<lfloor>32768 / 3 :: real\<rfloor> = 10922"
    by linarith
  have blob: "createBlob floor [1, - 1, 1 / 3] = [255, 127, 0, 128, 170, 42]"
    by (simp add: createBlob_def toInt16_def le16_def f)
  have dec: "decodeAudioData [255, 127, 0, 128, 170, 42] 16000 1 = Inr ?buf"
    using decode_createBlob [of floor "[1, - 1, 1 / 3]" 16000]
    by (simp add: blob toInt16_def f)
  from pcm_round_trip [OF rnd range, of 16000] obtain buf where
    b: "decodeAudioData (createBlob floor [1, - 1, 1 / 3]) 16000 1 = Inr buf"
       "\<forall>i < length [1, - 1, 1 / 3 :: real].
          \<bar>channelData buf ! 0 ! i - [1, - 1, 1 / 3] ! i\<bar> \<le> 1 / 32768"
    by blast
  from b(1) dec have buf: "buf = ?buf"
    by (simp add: blob)
  have "\<bar>channelData ?buf ! 0 ! 0 - [1, - 1, 1 / 3] ! 0\<bar> \<le> 1 / 32768"
    "\<bar>channelData ?buf ! 0 ! 1 - [1, - 1, 1 / 3] ! 1\<bar> \<le> 1 / 32768"
    "\<bar>channelData ?buf ! 0 ! 2 - [1, - 1, 1 / 3] ! 2\<bar> \<le> 1 / 32768"
    using b(2) unfolding buf by simp_all
  then have close: "\<bar>32767 / 32768 - (1::real)\<bar> \<le> 1 / 32768"
    "\<bar>- 1 - (- 1::real)\<bar> \<le> 1 / 32768"
    "\<bar>10922 / 32768 - (1 / 3::real)\<bar> \<le> 1 / 32768"
    by simp_all
  have inside: "set [1, - 1, 1 / 3] \<subseteq> {- 1 .. 1 :: real}"
    by simp
  from rnd inside blob dec close show ?thesis
    by blast
qed

subsection \<open>The visualizer\<close>

text \<open>
  Claim C10 as stated fails in one of the values it lists: the middle ring is drawn with
  \<^verbatim>\<open>scale(${scale * 0.9})\<close> (line 28), so when inactive its scale is 0.9, not 1.
\<close>

theorem idle_middle_ring_scale:
  "middleScale (Visualizer 0 False) = 9 / 10 \<and> middleScale (Visualizer 0 False) \<noteq> 1"
  by (simp add: Visualizer_def)

text \<open>
  Claim C10 as amended. When \<^verbatim>\<open>isActive\<close> is false the styles do not depend on the
  volume: for every two volumes the output is the same, namely outer pulse scale 0.8 and
  opacity 0, middle ring scale 0.9 and opacity 0.3, inner core scale 1 with the inactive
  colours and icon.
\<close>

theorem idle_visualizer_ignores_volume:
  "Visualizer v1 False = Visualizer v2 False
   \<and> Visualizer v1 False =
       \<lparr>outerScale = 0.8, outerOpacity = 0, middleScale = 0.9, middleOpacity = 0.3,
        innerScale = 1, innerActive = False\<rparr>"
  by (simp add: Visualizer_def)

end
